theory Spec2Isabelle
  imports Complex_Main "HOL-Library.Monad_Syntax"
begin

section \<open>nb.binterpolate~: a shallow embedding of the interpolation engine\<close>

text \<open>
  The source is \<^verbatim>\<open>nb.binterpolate~.c\<close>, an MSP external. The embedding follows the C
  text function by function.

  Conventions of the embedding:
  \<^item> C \<^verbatim>\<open>double\<close> values are exact reals; infinities and NaN are not represented.
  \<^item> The \<^verbatim>\<open>float\<close> arithmetic of \<^verbatim>\<open>secondsToFrames\<close> and the conversion of the two
    arguments of \<^verbatim>\<open>setInterpolationTime\<close> to \<^verbatim>\<open>float\<close> are rounded to single precision
    by \<open>f32\<close> below. The scale of \<^verbatim>\<open>irand\<close> is kept exact.
  \<^item> C \<^verbatim>\<open>int\<close> and \<^verbatim>\<open>long\<close> values are unbounded integers. Where the operand of a
    conversion to \<^verbatim>\<open>int\<close> is bounded by the configuration (frame counts, the clamped
    bin, the sample rate) the conversion is exact truncation toward zero, \<open>c_int\<close>.
    Where the operand is an arbitrary signal value, the cast in the second loop, it is
    \<open>int_cast\<close>, which leaves the range of \<^verbatim>\<open>int\<close> as the target platform does.
  \<^item> The field \<^verbatim>\<open>fftSize\<close> is a \<^verbatim>\<open>double\<close> in the struct but only ever holds the
    whole number returned by \<^verbatim>\<open>getFFTSize\<close>; it is an integer here and is converted
    to a real where the C text computes with it as a double.
  \<^item> Each \<^verbatim>\<open>t_atom*\<close> table is a list with one entry per allocated atom. The atom
    accessors of the SDK become reads and writes of the entry; a read or write outside
    the allocation is the value \<open>None\<close>, which every caller propagates.
\<close>

subsection \<open>Constants of the file\<close>

definition DEFAULT_FFT_SIZE :: int where "DEFAULT_FFT_SIZE = 4096"
definition DEFAULT_LENGTH :: real where "DEFAULT_LENGTH = 10"
definition MAX_LENGTH :: real where "MAX_LENGTH = 30"
definition MIN_LENGTH :: real where "MIN_LENGTH = 0"
definition DEFAULT_VARIANCE :: real where "DEFAULT_VARIANCE = 2"
definition MAX_VARIANCE :: real where "MAX_VARIANCE = 15"
definition MIN_VARIANCE :: real where "MIN_VARIANCE = 0"
definition MIN_INTERP_FRAMES :: int where "MIN_INTERP_FRAMES = 1"

text \<open>
  \<^verbatim>\<open>RAND_MAX\<close> comes from the C library. \<^verbatim>\<open>random()\<close> returns a value between 0 and
  \<open>2^31 - 1\<close>, and on the platforms the external is built for \<^verbatim>\<open>RAND_MAX\<close> is that
  same number.
\<close>

definition RAND_MAX :: nat where "RAND_MAX = 2147483647"

subsection \<open>Helpers standing for C and SDK primitives\<close>

text \<open>
  Modelled from the spec: the macro \<^verbatim>\<open>CLAMP\<close> is declared in the SDK headers, which
  are not among the sources. The spec describes its use as clamping a value into a
  closed range, an out-of-range value being remapped to the nearest bound. The form
  below is the comparison chain \<^verbatim>\<open>a > lo ? (a < hi ? a : hi) : lo\<close>.
\<close>

definition CLAMP :: "'a::linorder \<Rightarrow> 'a \<Rightarrow> 'a \<Rightarrow> 'a" where
  "CLAMP a lo hi = (if a > lo then (if a < hi then a else hi) else lo)"

text \<open>The cast \<^verbatim>\<open>(int)\<close> of a floating value: truncation toward zero.\<close>

definition c_int :: "real \<Rightarrow> int" where
  "c_int v = (if 0 \<le> v then \<lfloor>v\<rfloor> else \<lceil>v\<rceil>)"

text \<open>
  The cast \<^verbatim>\<open>(int)\<close> applied to a signal value. C defines the conversion only when the
  truncated value fits a 32-bit \<^verbatim>\<open>int\<close> and leaves it undefined otherwise. The x86-64
  instruction the external is compiled to for the cast then delivers the most negative
  \<^verbatim>\<open>int\<close>, and that is the value taken here.
\<close>

definition int_cast :: "real \<Rightarrow> int" where
  "int_cast v = (if - 2147483649 < v \<and> v < 2147483648 then c_int v else - 2147483648)"

text \<open>
  Single precision. \<open>round_even\<close> rounds to the nearest integer, a tie to the even
  one. \<open>f32\<close> rounds a real to the nearest binary32 value: 24 significant bits, the
  exponent not below -126, so that the spacing under \<open>2 powi - 126\<close> is that of the
  subnormal numbers. Overflow to infinity is not represented; the values rounded in this
  file are the arguments of \<^verbatim>\<open>setInterpolationTime\<close>, which \<^verbatim>\<open>CLAMP\<close> bounds right after
  the conversion, and a product and a quotient bounded by 30 times the sample rate.
\<close>

definition round_even :: "real \<Rightarrow> int" where
  "round_even q =
     (let f = \<lfloor>q\<rfloor>; d = q - real_of_int f
      in if d < 1 / 2 then f else if 1 / 2 < d then f + 1 else if even f then f else f + 1)"

definition f32_ulp :: "real \<Rightarrow> real" where
  "f32_ulp v = 2 powi (max \<lfloor>log 2 \<bar>v\<bar>\<rfloor> (- 126) - 23)"

definition f32 :: "real \<Rightarrow> real" where
  "f32 v = (if v = 0 then 0 else real_of_int (round_even (v / f32_ulp v)) * f32_ulp v)"

text \<open>Reading and writing entry \<open>i\<close> of a table; \<open>None\<close> outside the allocation.\<close>

definition rd :: "'a list \<Rightarrow> int \<Rightarrow> 'a option" where
  "rd xs i = (if 0 \<le> i \<and> i < int (length xs) then Some (xs ! nat i) else None)"

definition wr :: "'a list \<Rightarrow> int \<Rightarrow> 'a \<Rightarrow> 'a list option" where
  "wr xs i v = (if 0 \<le> i \<and> i < int (length xs) then Some (xs[nat i := v]) else None)"

subsection \<open>The object struct\<close>

text \<open>
  The fields of \<^verbatim>\<open>t_interp\<close> without the MSP header. The flag table is the field
  \<^verbatim>\<open>updateTarget\<close> of the struct; it is called \<open>updateTargetFlags\<close> here because the
  function \<^verbatim>\<open>updateTarget\<close> keeps its name.
\<close>

record interp =
  fftSize :: int
  sampleRate :: int
  currMag :: "real list"
  currPhase :: "real list"
  targetMag :: "real list"
  targetPhase :: "real list"
  incMag :: "real list"
  incPhase :: "real list"
  totalFrames :: "int list"
  frameCount :: "int list"
  updateTargetFlags :: "int list"
  interpLengthSecs :: real
  interpVarianceSecs :: real
  interpLengthFrames :: int
  interpVarianceFrames :: int
  interpMin :: int
  interpMax :: int

subsection \<open>Helper functions of the source\<close>

text \<open>
  \<^verbatim>\<open>irand\<close>: the argument \<open>r\<close> is the value returned by the call of \<^verbatim>\<open>random()\<close>.
  The sum is computed in floating point and converted to \<^verbatim>\<open>int\<close> by the return; the
  scale and the sum are kept exact here.
\<close>

definition irand :: "nat \<Rightarrow> int \<Rightarrow> int \<Rightarrow> int" where
  "irand r mn mx =
     (let scale = real r / real RAND_MAX
      in c_int (real_of_int mn + scale * real_of_int (mx - mn)))"

text \<open>\<^verbatim>\<open>getFFTSize\<close>: the argument is the size published by an enclosing pfft~, if any.\<close>

definition getFFTSize :: "int option \<Rightarrow> int" where
  "getFFTSize pfft = (case pfft of Some n \<Rightarrow> n | None \<Rightarrow> DEFAULT_FFT_SIZE)"

text \<open>
  \<^verbatim>\<open>secondsToFrames\<close>: \<open>seconds\<close> is a \<^verbatim>\<open>float\<close>. The sample rate is converted to
  \<^verbatim>\<open>float\<close> for the product, the product is a \<^verbatim>\<open>float\<close>, the size is converted to
  \<^verbatim>\<open>float\<close> for the quotient, the quotient is a \<^verbatim>\<open>float\<close>, and the cast truncates it.
\<close>

definition secondsToFrames :: "real \<Rightarrow> int \<Rightarrow> int \<Rightarrow> int" where
  "secondsToFrames seconds sr fft =
     c_int (f32 (f32 (seconds * f32 (real_of_int sr)) / f32 (real_of_int fft)))"

text \<open>
  \<^verbatim>\<open>setInterpolationTime\<close>: both parameters have type \<^verbatim>\<open>float\<close>, so the arguments are
  converted to single precision on entry.
\<close>

definition setInterpolationTime :: "interp \<Rightarrow> real \<Rightarrow> real \<Rightarrow> interp" where
  "setInterpolationTime x lengthSecs varianceSecs =
     (let x1 = x\<lparr>interpLengthSecs := CLAMP (f32 lengthSecs) MIN_LENGTH MAX_LENGTH\<rparr>;
          x2 = x1\<lparr>interpLengthFrames :=
                    secondsToFrames (interpLengthSecs x1) (sampleRate x1) (fftSize x1)\<rparr>;
          x3 = x2\<lparr>interpLengthFrames :=
                    (if interpLengthFrames x2 < MIN_INTERP_FRAMES then MIN_INTERP_FRAMES
                     else interpLengthFrames x2)\<rparr>;
          x4 = x3\<lparr>interpVarianceSecs := CLAMP (f32 varianceSecs) MIN_VARIANCE MAX_VARIANCE\<rparr>;
          x5 = x4\<lparr>interpVarianceFrames :=
                    secondsToFrames (interpVarianceSecs x4) (sampleRate x4) (fftSize x4)\<rparr>;
          minVar = real_of_int (interpLengthFrames x5 - interpVarianceFrames x5);
          x6 = x5\<lparr>interpMin := (if minVar \<le> 0 then 1 else c_int minVar)\<rparr>
      in x6\<lparr>interpMax := interpLengthFrames x6 + interpVarianceFrames x6\<rparr>)"

subsection \<open>Constructor and DSP setup\<close>

text \<open>
  \<^verbatim>\<open>interp_new\<close>: \<open>sr\<close> is the value of \<^verbatim>\<open>sys_getsr()\<close>, \<open>pfft\<close> the enclosing pfft~
  size if there is one, \<open>argv\<close> the float arguments of the object box. The object
  memory starts cleared; the timing is set before the tables are allocated, and
  \<^verbatim>\<open>sysmem_newptrclear\<close> returns cleared atoms, which read as 0.
\<close>

definition cleared :: interp where
  "cleared = \<lparr>fftSize = 0, sampleRate = 0, currMag = [], currPhase = [], targetMag = [],
     targetPhase = [], incMag = [], incPhase = [], totalFrames = [], frameCount = [],
     updateTargetFlags = [], interpLengthSecs = 0, interpVarianceSecs = 0,
     interpLengthFrames = 0, interpVarianceFrames = 0, interpMin = 0, interpMax = 0\<rparr>"

definition interp_new :: "real \<Rightarrow> int option \<Rightarrow> real list \<Rightarrow> interp" where
  "interp_new sr pfft argv =
     (let x0 = cleared\<lparr>sampleRate := c_int sr\<rparr>;
          x1 = x0\<lparr>fftSize := getFFTSize pfft\<rparr>;
          interpLength = (if length argv > 0 then argv ! 0 else DEFAULT_LENGTH);
          interpVariance = (if length argv > 1 then argv ! 1 else DEFAULT_VARIANCE);
          x2 = setInterpolationTime x1 interpLength interpVariance;
          n = nat (fftSize x2)
      in x2\<lparr>currMag := replicate n 0, currPhase := replicate n 0,
            targetMag := replicate n 0, targetPhase := replicate n 0,
            incMag := replicate n 0, incPhase := replicate n 0,
            totalFrames := replicate n 0, frameCount := replicate n 0,
            updateTargetFlags := replicate n 0\<rparr>)"

text \<open>
  The loop of \<^verbatim>\<open>interp_dsp64\<close> that raises every flag. The first argument counts the
  iterations left, \<open>i\<close> is the loop variable.
\<close>

fun dsp_loop :: "nat \<Rightarrow> int \<Rightarrow> interp \<Rightarrow> interp option" where
  "dsp_loop 0 i x = Some x"
| "dsp_loop (Suc k) i x =
     (case wr (updateTargetFlags x) i 1 of
        None \<Rightarrow> None
      | Some t \<Rightarrow> dsp_loop k (i + 1) (x\<lparr>updateTargetFlags := t\<rparr>))"

definition interp_dsp64 :: "interp \<Rightarrow> real \<Rightarrow> interp option" where
  "interp_dsp64 x samplerate =
     (let x1 = x\<lparr>sampleRate := c_int samplerate\<rparr>
      in dsp_loop (nat (fftSize x1)) 0 x1)"

text \<open>\<^verbatim>\<open>interp_float\<close>: a float arriving at inlet 0 or 1; other inlets are ignored.\<close>

definition interp_float :: "interp \<Rightarrow> int \<Rightarrow> real \<Rightarrow> interp" where
  "interp_float x inlet f =
     (if inlet = 0 then setInterpolationTime x f (interpVarianceSecs x)
      else if inlet = 1 then setInterpolationTime x (interpLengthSecs x) f
      else x)"

subsection \<open>Target acquisition\<close>

text \<open>
  The bin \<^verbatim>\<open>updateTarget\<close> resolves from its argument \<^verbatim>\<open>fftBin\<close>: the double is clamped
  first and the result is converted to \<^verbatim>\<open>int\<close>.
\<close>

definition target_bin :: "interp \<Rightarrow> real \<Rightarrow> int" where
  "target_bin x fftBin = c_int (CLAMP fftBin 0 (real_of_int (fftSize x) - 1))"

text \<open>
  \<^verbatim>\<open>updateTarget\<close>: \<open>r\<close> is the value \<^verbatim>\<open>random()\<close> returns inside \<^verbatim>\<open>irand\<close>. The total
  is read back from the table for each of the two divisions.
\<close>

definition updateTarget :: "interp \<Rightarrow> nat \<Rightarrow> real \<Rightarrow> real \<Rightarrow> real \<Rightarrow> interp option" where
  "updateTarget x r mag phase fftBin =
     (let bin = target_bin x fftBin in
      do {
        tm \<leftarrow> wr (targetMag x) bin mag;
        tp \<leftarrow> wr (targetPhase x) bin phase;
        tf \<leftarrow> wr (totalFrames x) bin (irand r (interpMin x) (interpMax x));
        cm \<leftarrow> rd (currMag x) bin;
        cp \<leftarrow> rd (currPhase x) bin;
        n1 \<leftarrow> rd tf bin;
        n2 \<leftarrow> rd tf bin;
        im \<leftarrow> wr (incMag x) bin ((mag - cm) / real_of_int n1);
        ip \<leftarrow> wr (incPhase x) bin ((phase - cp) / real_of_int n2);
        ut \<leftarrow> wr (updateTargetFlags x) bin 0;
        fc \<leftarrow> wr (frameCount x) bin 0;
        Some (x\<lparr>targetMag := tm, targetPhase := tp, incMag := im, incPhase := ip,
                totalFrames := tf, frameCount := fc, updateTargetFlags := ut\<rparr>)
      })"

subsection \<open>The perform method\<close>

text \<open>
  A frame is the triple \<^verbatim>\<open>(in_mag[i], in_phase[i], in_index[i])\<close>; a block is the list of
  its frames, so the three input vectors have the same length by construction. The
  object sets \<^verbatim>\<open>Z_NO_INPLACE\<close>, so the output vectors are distinct from the inputs and
  are returned as a list of pairs.
\<close>

type_synonym frame = "real \<times> real \<times> real"

text \<open>
  The body of the first loop at position \<open>i\<close>. The test \<^verbatim>\<open>x->updateTarget+i != NULL\<close>
  compares an address inside the object with the null pointer and is always true. The
  flag is read at \<open>i\<close>, the current values at \<open>i\<close> are overwritten with the targets at
  \<open>i\<close>, and \<^verbatim>\<open>updateTarget\<close> receives \<^verbatim>\<open>in_index[i]\<close> as its bin argument.
\<close>

definition refresh_frame :: "nat \<Rightarrow> interp \<Rightarrow> int \<Rightarrow> frame \<Rightarrow> interp option" where
  "refresh_frame r x i f =
     (case f of (mag, phase, idx) \<Rightarrow>
      do {
        flag \<leftarrow> rd (updateTargetFlags x) i;
        if flag \<noteq> 0 then
          do {
            tm \<leftarrow> rd (targetMag x) i;
            cm \<leftarrow> wr (currMag x) i tm;
            tp \<leftarrow> rd (targetPhase x) i;
            cp \<leftarrow> wr (currPhase x) i tp;
            updateTarget (x\<lparr>currMag := cm, currPhase := cp\<rparr>) r mag phase idx
          }
        else Some x
      })"

text \<open>
  The first loop. \<open>rnd i\<close> is the value \<^verbatim>\<open>random()\<close> returns if it is called while the
  loop is at position \<open>i\<close>.
\<close>

fun refresh_loop :: "(nat \<Rightarrow> nat) \<Rightarrow> frame list \<Rightarrow> int \<Rightarrow> interp \<Rightarrow> interp option" where
  "refresh_loop rnd [] i x = Some x"
| "refresh_loop rnd (f # fs) i x =
     (case refresh_frame (rnd (nat i)) x i f of
        None \<Rightarrow> None
      | Some x' \<Rightarrow> refresh_loop rnd fs (i + 1) x')"

text \<open>The bin the second loop resolves from \<^verbatim>\<open>in_index[k]\<close>: cast first, then clamp.\<close>

definition step_bin :: "interp \<Rightarrow> real \<Rightarrow> int" where
  "step_bin x idx = c_int (CLAMP (real_of_int (int_cast idx)) 0 (real_of_int (fftSize x) - 1))"

text \<open>The body of the second loop; it returns the new state and the two output samples.\<close>

definition step_frame :: "interp \<Rightarrow> frame \<Rightarrow> (interp \<times> real \<times> real) option" where
  "step_frame x f =
     (case f of (mag, phase, idx) \<Rightarrow>
      let bin = step_bin x idx in
      do {
        incM \<leftarrow> rd (incMag x) bin;
        incP \<leftarrow> rd (incPhase x) bin;
        cm0 \<leftarrow> rd (currMag x) bin;
        cm \<leftarrow> wr (currMag x) bin (cm0 + incM);
        cp0 \<leftarrow> rd (currPhase x) bin;
        cp \<leftarrow> wr (currPhase x) bin (cp0 + incP);
        outM \<leftarrow> rd cm bin;
        outP \<leftarrow> rd cp bin;
        fc0 \<leftarrow> rd (frameCount x) bin;
        fc \<leftarrow> wr (frameCount x) bin (fc0 + 1);
        tot \<leftarrow> rd (totalFrames x) bin;
        if fc0 + 1 \<ge> tot then
          do {
            ut \<leftarrow> wr (updateTargetFlags x) bin 1;
            fc' \<leftarrow> wr fc bin 0;
            Some (x\<lparr>currMag := cm, currPhase := cp, frameCount := fc',
                    updateTargetFlags := ut\<rparr>, outM, outP)
          }
        else Some (x\<lparr>currMag := cm, currPhase := cp, frameCount := fc\<rparr>, outM, outP)
      })"

fun step_loop :: "frame list \<Rightarrow> interp \<Rightarrow> (interp \<times> (real \<times> real) list) option" where
  "step_loop [] x = Some (x, [])"
| "step_loop (f # fs) x =
     (case step_frame x f of
        None \<Rightarrow> None
      | Some (x', outM, outP) \<Rightarrow>
          (case step_loop fs x' of
             None \<Rightarrow> None
           | Some (x'', outs) \<Rightarrow> Some (x'', (outM, outP) # outs)))"

definition interp_perform64 ::
    "(nat \<Rightarrow> nat) \<Rightarrow> interp \<Rightarrow> frame list \<Rightarrow> (interp \<times> (real \<times> real) list) option" where
  "interp_perform64 rnd x ins =
     (case refresh_loop rnd ins 0 x of
        None \<Rightarrow> None
      | Some x' \<Rightarrow> step_loop ins x')"

section \<open>Auxiliary definitions for the proofs\<close>

text \<open>
  The invariant of the allocation: each of the nine tables has one entry per bin. The
  constructor establishes it and no operation changes a table's length.
\<close>

definition tables_allocated :: "interp \<Rightarrow> bool" where
  "tables_allocated x \<longleftrightarrow>
     length (currMag x) = nat (fftSize x) \<and> length (currPhase x) = nat (fftSize x) \<and>
     length (targetMag x) = nat (fftSize x) \<and> length (targetPhase x) = nat (fftSize x) \<and>
     length (incMag x) = nat (fftSize x) \<and> length (incPhase x) = nat (fftSize x) \<and>
     length (totalFrames x) = nat (fftSize x) \<and> length (frameCount x) = nat (fftSize x) \<and>
     length (updateTargetFlags x) = nat (fftSize x)"

text \<open>
  Closed forms of the states the operations return when every access is in range. They
  are proved equal to the results of the embedded functions below and serve to state
  the lemmas: \<open>acquired\<close> for \<^verbatim>\<open>updateTarget\<close> on bin \<open>b\<close> with drawn total \<open>n\<close>,
  \<open>carried\<close> for the two assignments before the call in the first loop, \<open>stepped\<close> for
  the body of the second loop on bin \<open>b\<close>.
\<close>

definition acquired :: "interp \<Rightarrow> nat \<Rightarrow> int \<Rightarrow> real \<Rightarrow> real \<Rightarrow> interp" where
  "acquired x b n mag phase =
     x\<lparr>targetMag := (targetMag x)[b := mag],
       targetPhase := (targetPhase x)[b := phase],
       incMag := (incMag x)[b := (mag - currMag x ! b) / real_of_int n],
       incPhase := (incPhase x)[b := (phase - currPhase x ! b) / real_of_int n],
       totalFrames := (totalFrames x)[b := n],
       frameCount := (frameCount x)[b := 0],
       updateTargetFlags := (updateTargetFlags x)[b := 0]\<rparr>"

definition carried :: "interp \<Rightarrow> nat \<Rightarrow> interp" where
  "carried x j = x\<lparr>currMag := (currMag x)[j := targetMag x ! j],
                    currPhase := (currPhase x)[j := targetPhase x ! j]\<rparr>"

definition stepped :: "interp \<Rightarrow> nat \<Rightarrow> interp" where
  "stepped x b =
     x\<lparr>currMag := (currMag x)[b := currMag x ! b + incMag x ! b],
       currPhase := (currPhase x)[b := currPhase x ! b + incPhase x ! b],
       frameCount := (frameCount x)[b := (if frameCount x ! b + 1 \<ge> totalFrames x ! b then 0
                                          else frameCount x ! b + 1)],
       updateTargetFlags := (if frameCount x ! b + 1 \<ge> totalFrames x ! b
                             then (updateTargetFlags x)[b := 1] else updateTargetFlags x)\<rparr>"

text \<open>The number of frames of a block that the second loop resolves to bin \<open>b\<close>.\<close>

definition hits :: "interp \<Rightarrow> int \<Rightarrow> frame list \<Rightarrow> nat" where
  "hits x b ins = length (filter (\<lambda>f. step_bin x (snd (snd f)) = b) ins)"

text \<open>The object as \<^verbatim>\<open>interp_new\<close> leaves it just before it allocates the tables.\<close>

definition new_config :: "real \<Rightarrow> int option \<Rightarrow> real list \<Rightarrow> interp" where
  "new_config sr pfft argv =
     setInterpolationTime (cleared\<lparr>sampleRate := c_int sr, fftSize := getFFTSize pfft\<rparr>)
       (if length argv > 0 then argv ! 0 else DEFAULT_LENGTH)
       (if length argv > 1 then argv ! 1 else DEFAULT_VARIANCE)"


subsection \<open>The specification's wording, for comparison\<close>

text \<open>
  The specification derives frame counts with \<open>round\<close>, and has the refresh pass call
  the acquisition with the frame position as the bin. These two definitions follow the
  specification, not the source.
\<close>

definition spec_secondsToFrames :: "real \<Rightarrow> int \<Rightarrow> int \<Rightarrow> int" where
  "spec_secondsToFrames seconds sr fft = round (seconds * real_of_int sr / real_of_int fft)"


section \<open>Basic facts about the embedded functions\<close>

subsection \<open>Single-precision rounding\<close>

lemma round_even_of_int [simp]: "round_even (real_of_int z) = z"
  by (simp add: round_even_def)

lemma round_even_nonneg: "0 \<le> q \<Longrightarrow> 0 \<le> round_even q"
  by (auto simp: round_even_def Let_def)

lemma f32_ulp_pos: "0 < f32_ulp v"
  by (simp add: f32_ulp_def)

lemma f32_zero [simp]: "f32 0 = 0"
  by (simp add: f32_def)

lemma f32_nonneg: "0 \<le> v \<Longrightarrow> 0 \<le> f32 v"
proof -
  assume "0 \<le> v"
  then have "0 \<le> v / f32_ulp v" using f32_ulp_pos [of v] by simp
  then have "0 \<le> round_even (v / f32_ulp v)" by (rule round_even_nonneg)
  then show ?thesis using f32_ulp_pos [of v] by (simp add: f32_def)
qed

lemma f32_ulp_normal:
  assumes "2 powi e \<le> \<bar>v\<bar>" and "\<bar>v\<bar> < 2 powi (e + 1)" and "- 126 \<le> e"
  shows "f32_ulp v = 2 powi (e - 23)"
proof -
  have pos: "0 < \<bar>v\<bar>" using assms(1) zero_less_power_int [of "2::real" e] by linarith
  have "(2::real) powr real_of_int e \<le> \<bar>v\<bar> \<and> \<bar>v\<bar> < 2 powr (real_of_int e + 1)"
    using assms(1,2) powr_real_of_int' [of "2::real" e] powr_real_of_int' [of "2::real" "e + 1"]
    by (simp add: add.commute)
  then have "\<lfloor>log 2 \<bar>v\<bar>\<rfloor> = e"
    using floor_log_eq_powr_iff [of "\<bar>v\<bar>" 2 e] pos by simp
  then show ?thesis using assms(3) by (simp add: f32_ulp_def)
qed

lemma f32_normal:
  assumes "2 powi e \<le> \<bar>v\<bar>" and "\<bar>v\<bar> < 2 powi (e + 1)" and "- 126 \<le> e"
  shows "f32 v = real_of_int (round_even (v / 2 powi (e - 23))) * 2 powi (e - 23)"
proof -
  have "0 < \<bar>v\<bar>" using assms(1) zero_less_power_int [of "2::real" e] by linarith
  then have "v \<noteq> 0" by simp
  then show ?thesis by (simp add: f32_def f32_ulp_normal [OF assms])
qed

lemma powi2_less_imp: "(2::real) powi m < 2 powi n \<Longrightarrow> m < n"
proof (rule ccontr)
  assume l: "(2::real) powi m < 2 powi n" and "\<not> m < n"
  then have "n \<le> m" by simp
  then have "(2::real) powi n \<le> 2 powi m" by (intro power_int_increasing) simp_all
  with l show False by simp
qed

lemma f32_exact:
  assumes "m \<noteq> 0" and "\<bar>m\<bar> < 2 ^ 24" and "k \<le> 126"
  shows "f32 (real_of_int m / 2 ^ k) = real_of_int m / 2 ^ k"
proof -
  let ?v = "real_of_int m / 2 ^ k"
  define e where "e = \<lfloor>log 2 \<bar>?v\<bar>\<rfloor>"
  have vpos: "0 < \<bar>?v\<bar>" using assms(1) by simp
  have b: "2 powr real_of_int e \<le> \<bar>?v\<bar> \<and> \<bar>?v\<bar> < 2 powr (real_of_int e + 1)"
    using floor_log_eq_powr_iff [of "\<bar>?v\<bar>" 2 e] vpos by (simp add: e_def)
  then have lo: "2 powi e \<le> \<bar>?v\<bar>" and hi: "\<bar>?v\<bar> < 2 powi (e + 1)"
    using powr_real_of_int' [of "2::real" e] powr_real_of_int' [of "2::real" "e + 1"]
    by (simp_all add: add.commute)
  have vk: "\<bar>?v\<bar> = real_of_int \<bar>m\<bar> * 2 powi (- int k)"
    by (simp add: power_int_minus field_simps)
  have "1 \<le> real_of_int \<bar>m\<bar>" using assms(1) by linarith
  then have "1 * (2::real) powi (- int k) \<le> real_of_int \<bar>m\<bar> * 2 powi (- int k)"
    by (intro mult_right_mono) simp_all
  then have "(2::real) powi (- int k) \<le> \<bar>?v\<bar>"
    unfolding vk by simp
  then have "(2::real) powi (- int k) < 2 powi (e + 1)" using hi by linarith
  then have "- int k < e + 1" by (rule powi2_less_imp)
  then have en: "- 126 \<le> e" using assms(3) by linarith
  have "real_of_int \<bar>m\<bar> < 2 ^ 24" using assms(2) by (metis of_int_less_numeral_power_cancel_iff)
  then have "real_of_int \<bar>m\<bar> * 2 powi (- int k) < 2 ^ 24 * 2 powi (- int k)"
    by (intro mult_strict_right_mono) simp_all
  then have "\<bar>?v\<bar> < 2 ^ 24 * 2 powi (- int k)"
    unfolding vk by simp
  also have "\<dots> = 2 powi (24 - int k)"
    by (simp add: power_int_diff power_int_minus field_simps)
  finally have "(2::real) powi e < 2 powi (24 - int k)" using lo by linarith
  then have "e < 24 - int k" by (rule powi2_less_imp)
  then have ge: "0 \<le> 23 - int k - e" by linarith
  have d1: "(2::real) powi (23 - int k - e) = 2 powi 23 / 2 ^ k / 2 powi e"
    using power_int_diff [of "2::real" "23 - int k" e] power_int_diff [of "2::real" 23 "int k"]
    by simp
  have d2: "(2::real) powi (e - 23) = 2 powi e / 2 powi 23"
    using power_int_diff [of "2::real" e 23] by simp
  have "?v / 2 powi (e - 23) = real_of_int m * 2 powi (23 - int k - e)"
    unfolding d1 d2 by (simp add: field_simps)
  also have "\<dots> = real_of_int (m * 2 ^ nat (23 - int k - e))"
    using ge by (simp add: power_int_def)
  finally have q: "?v / 2 powi (e - 23) = real_of_int (m * 2 ^ nat (23 - int k - e))" .
  have "f32 ?v = real_of_int (round_even (?v / 2 powi (e - 23))) * 2 powi (e - 23)"
    using lo hi en by (rule f32_normal)
  also have "\<dots> = ?v / 2 powi (e - 23) * 2 powi (e - 23)"
    by (simp only: q round_even_of_int)
  also have "\<dots> = ?v" by simp
  finally show ?thesis .
qed

lemma f32_exact_int: "m \<noteq> 0 \<Longrightarrow> \<bar>m\<bar> < 2 ^ 24 \<Longrightarrow> f32 (real_of_int m) = real_of_int m"
  using f32_exact [of m 0] by simp

lemma f32_of_numerals:
  "f32 1 = 1" "f32 2 = 2" "f32 10 = 10" "f32 11 = 11" "f32 4096 = 4096" "f32 44100 = 44100" "f32 88200 = 88200"
  "f32 441000 = 441000" "f32 882000 = 882000" "f32 176400 = 176400" "f32 11025 = 11025"
  using f32_exact_int [of 1] f32_exact_int [of 2] f32_exact_int [of 10] f32_exact_int [of 11]
    f32_exact_int [of 4096]
    f32_exact_int [of 44100] f32_exact_int [of 88200] f32_exact_int [of 441000]
    f32_exact_int [of 882000] f32_exact_int [of 176400] f32_exact_int [of 11025]
  by simp_all

lemma f32_of_fractions:
  "f32 (1 / 4) = 1 / 4"
  "f32 (55125 / 512) = 55125 / 512"
  "f32 (11025 / 512) = 11025 / 512"
  "f32 (11025 / 1024) = 11025 / 1024"
  "f32 (55125 / 256) = 55125 / 256"
  "f32 (11025 / 256) = 11025 / 256"
  "f32 (11025 / 4096) = 11025 / 4096"
  using f32_exact [of 1 2] f32_exact [of 55125 9] f32_exact [of 11025 9] f32_exact [of 11025 10]
    f32_exact [of 55125 8] f32_exact [of 11025 8] f32_exact [of 11025 12]
  by simp_all

lemma f32_rounds_up: "f32 (11811159675 / 262144) = 45056"
proof -
  let ?v = "11811159675 / 262144 :: real"
  have "f32 ?v = real_of_int (round_even (?v / 2 powi (15 - 23))) * 2 powi (15 - 23)"
    by (rule f32_normal) simp_all
  also have "\<dots> = 45056"
    by (simp add: round_even_def power_int_minus)
  finally show ?thesis .
qed

subsection \<open>Conversions, tables and bins\<close>

lemma c_int_of_int [simp]: "c_int (real_of_int n) = n"
  by (simp add: c_int_def)

lemma c_int_zero [simp]: "c_int 0 = 0"
  by (simp add: c_int_def)

lemma c_int_pred [simp]: "c_int (real_of_int n - 1) = n - 1"
  using c_int_of_int [of "n - 1"] by simp

lemma c_int_lower: "real_of_int a \<le> v \<Longrightarrow> a \<le> c_int v"
  unfolding c_int_def by (simp add: le_floor_iff) (metis le_of_int_ceiling of_int_le_iff order_trans)

lemma c_int_upper: "v \<le> real_of_int b \<Longrightarrow> c_int v \<le> b"
  unfolding c_int_def by (simp add: ceiling_le_iff) (metis of_int_floor_le of_int_le_iff order_trans)

lemma CLAMP_bounds: "lo \<le> hi \<Longrightarrow> lo \<le> CLAMP a lo hi \<and> CLAMP a lo hi \<le> hi"
  by (auto simp: CLAMP_def)

lemma rd_in [simp]: "0 \<le> i \<Longrightarrow> i < int (length xs) \<Longrightarrow> rd xs i = Some (xs ! nat i)"
  by (simp add: rd_def)

lemma wr_in [simp]: "0 \<le> i \<Longrightarrow> i < int (length xs) \<Longrightarrow> wr xs i v = Some (xs[nat i := v])"
  by (simp add: wr_def)

lemma rd_None_iff: "rd xs i = None \<longleftrightarrow> \<not> (0 \<le> i \<and> i < int (length xs))"
  by (simp add: rd_def)

lemma target_bin_range:
  assumes "0 < fftSize x"
  shows "0 \<le> target_bin x idx \<and> target_bin x idx < fftSize x"
proof -
  let ?c = "CLAMP idx 0 (real_of_int (fftSize x) - 1)"
  have "0 \<le> ?c \<and> ?c \<le> real_of_int (fftSize x) - 1"
    using assms by (intro CLAMP_bounds) simp
  then have "0 \<le> c_int ?c" and "c_int ?c \<le> fftSize x - 1"
    using c_int_lower [of 0 ?c] c_int_upper [of ?c "fftSize x - 1"] by simp_all
  then show ?thesis by (simp add: target_bin_def)
qed

lemma int_cast_in_range:
  "- 2147483649 < v \<Longrightarrow> v < 2147483648 \<Longrightarrow> int_cast v = c_int v"
  by (simp add: int_cast_def)

lemma step_bin_range:
  assumes "0 < fftSize x"
  shows "0 \<le> step_bin x idx \<and> step_bin x idx < fftSize x"
proof -
  let ?c = "CLAMP (real_of_int (int_cast idx)) 0 (real_of_int (fftSize x) - 1)"
  have "0 \<le> ?c \<and> ?c \<le> real_of_int (fftSize x) - 1"
    using assms by (intro CLAMP_bounds) simp
  then have "0 \<le> c_int ?c" and "c_int ?c \<le> fftSize x - 1"
    using c_int_lower [of 0 ?c] c_int_upper [of ?c "fftSize x - 1"] by simp_all
  then show ?thesis by (simp add: step_bin_def)
qed

lemma step_bin_clamp:
  assumes "0 < fftSize x" and "- 2147483649 < idx" and "idx < 2147483648"
  shows "step_bin x idx = max 0 (min (fftSize x - 1) (c_int idx))"
proof -
  have "CLAMP (real_of_int (c_int idx)) 0 (real_of_int (fftSize x) - 1)
      = real_of_int (CLAMP (c_int idx) 0 (fftSize x - 1))"
    by (simp add: CLAMP_def)
  then have "step_bin x idx = CLAMP (c_int idx) 0 (fftSize x - 1)"
    by (simp add: step_bin_def int_cast_in_range [OF assms(2,3)])
  then show ?thesis using assms(1) by (simp add: CLAMP_def max_def min_def)
qed

lemma target_bin_clamp:
  assumes "0 < fftSize x"
  shows "target_bin x idx = max 0 (min (fftSize x - 1) (c_int idx))"
proof -
  consider "idx \<le> 0" | "0 < idx" "idx < real_of_int (fftSize x) - 1" | "0 < idx" "real_of_int (fftSize x) - 1 \<le> idx"
    by linarith
  then show ?thesis
  proof cases
    case 1
    then have "c_int idx \<le> 0" using c_int_upper [of idx 0] by simp
    with 1 assms show ?thesis by (simp add: target_bin_def CLAMP_def)
  next
    case 2
    then have "0 \<le> c_int idx" using c_int_lower [of 0 idx] by simp
    moreover have "c_int idx \<le> fftSize x - 1" using 2 c_int_upper [of idx "fftSize x - 1"] by simp
    ultimately show ?thesis using 2 by (simp add: target_bin_def CLAMP_def)
  next
    case 3
    then have "fftSize x - 1 \<le> c_int idx" using c_int_lower [of "fftSize x - 1" idx] by simp
    with 3 assms show ?thesis by (simp add: target_bin_def CLAMP_def)
  qed
qed

lemma updateTarget_Some:
  assumes "tables_allocated x" and "0 < fftSize x"
  shows "updateTarget x r mag phase idx =
           Some (acquired x (nat (target_bin x idx)) (irand r (interpMin x) (interpMax x)) mag phase)"
proof -
  have b: "0 \<le> target_bin x idx" "target_bin x idx < fftSize x"
    using target_bin_range [OF assms(2)] by simp_all
  then have n: "nat (target_bin x idx) < nat (fftSize x)" by simp
  show ?thesis
    using assms(1) b n
    by (simp add: updateTarget_def tables_allocated_def acquired_def Let_def)
qed

lemma step_frame_Some:
  assumes "tables_allocated x" and "0 < fftSize x"
  shows "step_frame x (mag, phase, idx) =
           Some (stepped x (nat (step_bin x idx)),
                 currMag x ! nat (step_bin x idx) + incMag x ! nat (step_bin x idx),
                 currPhase x ! nat (step_bin x idx) + incPhase x ! nat (step_bin x idx))"
proof -
  have b: "0 \<le> step_bin x idx" "step_bin x idx < fftSize x"
    using step_bin_range [OF assms(2)] by simp_all
  then have n: "nat (step_bin x idx) < nat (fftSize x)" by simp
  show ?thesis
    using assms(1) b n
    by (simp add: step_frame_def tables_allocated_def stepped_def Let_def)
qed

lemma acquired_allocated:
  "tables_allocated x \<Longrightarrow> tables_allocated (acquired x b n mag phase)"
  by (simp add: tables_allocated_def acquired_def)

lemma stepped_allocated:
  "tables_allocated x \<Longrightarrow> tables_allocated (stepped x b)"
  by (simp add: tables_allocated_def stepped_def)

lemma irand_bounds:
  assumes "r \<le> RAND_MAX" and "mn \<le> mx"
  shows "mn \<le> irand r mn mx \<and> irand r mn mx \<le> mx"
proof -
  let ?s = "real r / real RAND_MAX"
  let ?d = "real_of_int (mx - mn)"
  have s0: "0 \<le> ?s" by simp
  have s1: "?s \<le> 1" using assms(1) by (simp add: RAND_MAX_def)
  have d0: "0 \<le> ?d" using assms(2) by simp
  have lo: "0 \<le> ?s * ?d" using s0 d0 by (rule mult_nonneg_nonneg)
  have hi: "?s * ?d \<le> ?d" by (rule mult_left_le_one_le [OF d0 s0 s1])
  have "real_of_int mn \<le> real_of_int mn + ?s * ?d" using lo by simp
  moreover have "real_of_int mn + ?s * ?d \<le> real_of_int mx" using hi by simp
  ultimately show ?thesis
    using c_int_lower [of mn "real_of_int mn + ?s * ?d"] c_int_upper [of "real_of_int mn + ?s * ?d" mx]
    by (simp add: irand_def Let_def)
qed

lemma irand_degenerate: "irand r mn mn = mn"
  by (simp add: irand_def)

lemma acquired_total:
  "b < length (totalFrames x) \<Longrightarrow> totalFrames (acquired x b n mag phase) ! b = n"
  by (simp add: acquired_def)

lemma c_int_diff [simp]: "c_int (real_of_int a - real_of_int b) = a - b"
  using c_int_of_int [of "a - b"] by simp

lemma c_int_nonneg: "0 \<le> v \<Longrightarrow> 0 \<le> c_int v"
  by (simp add: c_int_def)

lemma sit_lengthFrames:
  "interpLengthFrames (setInterpolationTime x a b) =
     max 1 (secondsToFrames (CLAMP (f32 a) MIN_LENGTH MAX_LENGTH) (sampleRate x) (fftSize x))"
  by (simp add: setInterpolationTime_def Let_def max_def MIN_INTERP_FRAMES_def)

lemma sit_varianceFrames:
  "interpVarianceFrames (setInterpolationTime x a b) =
     secondsToFrames (CLAMP (f32 b) MIN_VARIANCE MAX_VARIANCE) (sampleRate x) (fftSize x)"
  by (simp add: setInterpolationTime_def Let_def)

lemma sit_min:
  "interpMin (setInterpolationTime x a b) =
     max (interpLengthFrames (setInterpolationTime x a b)
          - interpVarianceFrames (setInterpolationTime x a b)) 1"
  by (simp add: setInterpolationTime_def Let_def max_def)

lemma sit_max:
  "interpMax (setInterpolationTime x a b) =
     interpLengthFrames (setInterpolationTime x a b)
     + interpVarianceFrames (setInterpolationTime x a b)"
  by (simp add: setInterpolationTime_def Let_def)

lemma sit_secs:
  "interpLengthSecs (setInterpolationTime x a b) = CLAMP (f32 a) MIN_LENGTH MAX_LENGTH"
  "interpVarianceSecs (setInterpolationTime x a b) = CLAMP (f32 b) MIN_VARIANCE MAX_VARIANCE"
  by (simp_all add: setInterpolationTime_def Let_def)

lemma sit_other:
  "fftSize (setInterpolationTime x a b) = fftSize x"
  "sampleRate (setInterpolationTime x a b) = sampleRate x"
  "currMag (setInterpolationTime x a b) = currMag x"
  "currPhase (setInterpolationTime x a b) = currPhase x"
  "targetMag (setInterpolationTime x a b) = targetMag x"
  "targetPhase (setInterpolationTime x a b) = targetPhase x"
  "incMag (setInterpolationTime x a b) = incMag x"
  "incPhase (setInterpolationTime x a b) = incPhase x"
  "totalFrames (setInterpolationTime x a b) = totalFrames x"
  "frameCount (setInterpolationTime x a b) = frameCount x"
  "updateTargetFlags (setInterpolationTime x a b) = updateTargetFlags x"
  by (simp_all add: setInterpolationTime_def Let_def)

lemma secondsToFrames_nonneg:
  assumes "0 \<le> s" and "0 \<le> sr" and "0 < fft"
  shows "0 \<le> secondsToFrames s sr fft"
proof -
  have "0 \<le> f32 (real_of_int sr)" using assms(2) by (intro f32_nonneg) simp
  then have "0 \<le> f32 (s * f32 (real_of_int sr))" using assms(1) by (intro f32_nonneg) simp
  moreover have "0 \<le> f32 (real_of_int fft)" using assms(3) by (intro f32_nonneg) simp
  ultimately have "0 \<le> f32 (f32 (s * f32 (real_of_int sr)) / f32 (real_of_int fft))"
    by (intro f32_nonneg) simp
  then show ?thesis unfolding secondsToFrames_def by (rule c_int_nonneg)
qed

lemma sit_invariant:
  assumes "0 \<le> sampleRate x" and "0 < fftSize x"
  shows "1 \<le> interpMin (setInterpolationTime x a b)
       \<and> interpMin (setInterpolationTime x a b) \<le> interpMax (setInterpolationTime x a b)"
proof -
  have "0 \<le> CLAMP (f32 b) MIN_VARIANCE MAX_VARIANCE"
    using CLAMP_bounds [of MIN_VARIANCE MAX_VARIANCE "f32 b"]
    by (simp add: MIN_VARIANCE_def MAX_VARIANCE_def)
  then have v: "0 \<le> interpVarianceFrames (setInterpolationTime x a b)"
    using assms by (simp only: sit_varianceFrames secondsToFrames_nonneg)
  have l: "1 \<le> interpLengthFrames (setInterpolationTime x a b)"
    by (simp only: sit_lengthFrames max.cobounded1)
  have "1 \<le> interpMin (setInterpolationTime x a b)"
    by (subst sit_min) simp
  moreover have "interpMin (setInterpolationTime x a b) \<le> interpMax (setInterpolationTime x a b)"
    using v l by (subst sit_min, subst sit_max) simp
  ultimately show ?thesis ..
qed

lemma interp_new_tables:
  "currMag (interp_new sr pfft argv) = replicate (nat (getFFTSize pfft)) 0"
  "currPhase (interp_new sr pfft argv) = replicate (nat (getFFTSize pfft)) 0"
  "targetMag (interp_new sr pfft argv) = replicate (nat (getFFTSize pfft)) 0"
  "targetPhase (interp_new sr pfft argv) = replicate (nat (getFFTSize pfft)) 0"
  "incMag (interp_new sr pfft argv) = replicate (nat (getFFTSize pfft)) 0"
  "incPhase (interp_new sr pfft argv) = replicate (nat (getFFTSize pfft)) 0"
  "totalFrames (interp_new sr pfft argv) = replicate (nat (getFFTSize pfft)) 0"
  "frameCount (interp_new sr pfft argv) = replicate (nat (getFFTSize pfft)) 0"
  "updateTargetFlags (interp_new sr pfft argv) = replicate (nat (getFFTSize pfft)) 0"
  by (simp_all add: interp_new_def Let_def sit_other)

lemma interp_new_scalars:
  "fftSize (interp_new sr pfft argv) = getFFTSize pfft"
  "sampleRate (interp_new sr pfft argv) = c_int sr"
  by (simp_all add: interp_new_def Let_def sit_other)

lemma interp_new_config:
  "interpLengthSecs (interp_new sr pfft argv) = interpLengthSecs (new_config sr pfft argv)"
  "interpVarianceSecs (interp_new sr pfft argv) = interpVarianceSecs (new_config sr pfft argv)"
  "interpLengthFrames (interp_new sr pfft argv) = interpLengthFrames (new_config sr pfft argv)"
  "interpVarianceFrames (interp_new sr pfft argv) = interpVarianceFrames (new_config sr pfft argv)"
  "interpMin (interp_new sr pfft argv) = interpMin (new_config sr pfft argv)"
  "interpMax (interp_new sr pfft argv) = interpMax (new_config sr pfft argv)"
  by (simp_all add: interp_new_def new_config_def Let_def)

lemma interp_new_allocated: "tables_allocated (interp_new sr pfft argv)"
  by (simp add: tables_allocated_def interp_new_tables interp_new_scalars)

lemma take_Suc_update:
  "n < length xs \<Longrightarrow> take (Suc n) (xs[n := v]) = take n xs @ [v]"
  by (simp add: take_Suc_conv_app_nth)

lemma dsp_loop_Some:
  "0 \<le> i \<Longrightarrow> nat i + k = length (updateTargetFlags x) \<Longrightarrow>
     dsp_loop k i x =
       Some (x\<lparr>updateTargetFlags := take (nat i) (updateTargetFlags x) @ replicate k 1\<rparr>)"
proof (induction k arbitrary: i x)
  case 0
  then show ?case by simp
next
  case (Suc k)
  let ?fl = "updateTargetFlags x"
  have lt: "nat i < length ?fl" using Suc.prems by simp
  then have w: "wr ?fl i 1 = Some (?fl[nat i := 1])"
    using Suc.prems(1) by (simp add: wr_def)
  have n: "nat (i + 1) = Suc (nat i)" using Suc.prems(1) by simp
  have "dsp_loop k (i + 1) (x\<lparr>updateTargetFlags := ?fl[nat i := 1]\<rparr>) =
      Some (x\<lparr>updateTargetFlags := ?fl[nat i := 1]\<rparr>
             \<lparr>updateTargetFlags := take (nat (i + 1))
                 (updateTargetFlags (x\<lparr>updateTargetFlags := ?fl[nat i := 1]\<rparr>)) @ replicate k 1\<rparr>)"
    using Suc.prems by (intro Suc.IH) simp_all
  then show ?case
    using w lt by (simp add: n take_Suc_update replicate_app_Cons_same)
qed

lemma interp_dsp64_Some:
  assumes "length (updateTargetFlags x) = nat (fftSize x)"
  shows "interp_dsp64 x sr =
           Some (x\<lparr>sampleRate := c_int sr, updateTargetFlags := replicate (nat (fftSize x)) 1\<rparr>)"
  using dsp_loop_Some [of 0 "nat (fftSize x)" "x\<lparr>sampleRate := c_int sr\<rparr>"] assms
  by (simp add: interp_dsp64_def Let_def)

lemma default_engine_config:
  "interpLengthFrames (interp_new 44100 None []) = 107"
  "interpVarianceFrames (interp_new 44100 None []) = 21"
  "interpMin (interp_new 44100 None []) = 86"
  "interpMax (interp_new 44100 None []) = 128"
  "interpLengthSecs (interp_new 44100 None []) = 10"
  "interpVarianceSecs (interp_new 44100 None []) = 2"
  "fftSize (interp_new 44100 None []) = 4096"
  "sampleRate (interp_new 44100 None []) = 44100"
  by (simp_all add: interp_new_config interp_new_scalars new_config_def sit_min sit_max
      sit_lengthFrames sit_varianceFrames sit_secs cleared_def getFFTSize_def
      DEFAULT_FFT_SIZE_def DEFAULT_LENGTH_def DEFAULT_VARIANCE_def secondsToFrames_def f32_of_numerals f32_of_fractions
      CLAMP_def c_int_def MIN_LENGTH_def MAX_LENGTH_def MIN_VARIANCE_def MAX_VARIANCE_def)

lemma carried_allocated: "tables_allocated x \<Longrightarrow> tables_allocated (carried x j)"
  by (simp add: tables_allocated_def carried_def)

lemma fftSize_carried [simp]: "fftSize (carried x j) = fftSize x"
  by (simp add: carried_def)

lemma fftSize_acquired [simp]: "fftSize (acquired x b n mag phase) = fftSize x"
  by (simp add: acquired_def)

lemma fftSize_stepped [simp]: "fftSize (stepped x b) = fftSize x"
  by (simp add: stepped_def)

lemma target_bin_carried [simp]: "target_bin (carried x j) idx = target_bin x idx"
  by (simp add: target_bin_def)

lemma config_carried [simp]:
  "interpMin (carried x j) = interpMin x" "interpMax (carried x j) = interpMax x"
  by (simp_all add: carried_def)

lemma refresh_frame_in:
  assumes "tables_allocated x" and "0 \<le> i" and "i < fftSize x"
  shows "refresh_frame r x i (mag, phase, idx) =
           (if updateTargetFlags x ! nat i \<noteq> 0
            then updateTarget (carried x (nat i)) r mag phase idx else Some x)"
proof -
  have n: "nat i < nat (fftSize x)" using assms(2,3) by simp
  show ?thesis
    using assms n by (simp add: refresh_frame_def tables_allocated_def carried_def)
qed

lemma refresh_frame_out:
  assumes "tables_allocated x" and "\<not> (0 \<le> i \<and> i < fftSize x)"
  shows "refresh_frame r x i f = None"
proof -
  have "rd (updateTargetFlags x) i = None"
    using assms by (auto simp: rd_def tables_allocated_def)
  then show ?thesis
    by (simp add: refresh_frame_def split: prod.split)
qed

lemma refresh_frame_Some:
  assumes "tables_allocated x" and "0 \<le> i" and "i < fftSize x"
  shows "refresh_frame r x i (mag, phase, idx) =
           Some (if updateTargetFlags x ! nat i \<noteq> 0
                 then acquired (carried x (nat i)) (nat (target_bin x idx))
                        (irand r (interpMin x) (interpMax x)) mag phase
                 else x)"
proof -
  have pos: "0 < fftSize (carried x (nat i))" using assms(2,3) by simp
  have al: "tables_allocated (carried x (nat i))"
    using assms(1) by (rule carried_allocated)
  show ?thesis
    using updateTarget_Some [OF al pos, of r mag phase idx]
    by (simp add: refresh_frame_in [OF assms])
qed

lemma refresh_frame_keeps:
  assumes "tables_allocated x" and "0 \<le> i" and "i < fftSize x"
    and "refresh_frame r x i f = Some x'"
  shows "tables_allocated x' \<and> fftSize x' = fftSize x"
proof -
  obtain mag phase idx where f: "f = (mag, phase, idx)" by (cases f)
  show ?thesis
    using assms(4) assms(1)
    unfolding f refresh_frame_Some [OF assms(1,2,3)]
    by (auto simp: acquired_allocated carried_allocated split: if_splits)
qed

lemma refresh_loop_in_bounds:
  assumes "tables_allocated x" and "0 \<le> i"
  shows "refresh_loop rnd ins i x \<noteq> None \<longleftrightarrow> i + int (length ins) \<le> fftSize x \<or> ins = []"
  using assms
proof (induction ins arbitrary: i x)
  case Nil
  then show ?case by simp
next
  case (Cons f fs)
  show ?case
  proof (cases "i < fftSize x")
    case True
    obtain mag phase idx where f: "f = (mag, phase, idx)" by (cases f)
    obtain x' where x': "refresh_frame (rnd (nat i)) x i f = Some x'"
      unfolding f using refresh_frame_Some [OF Cons.prems(1,2) True] by simp
    have k: "tables_allocated x'" "fftSize x' = fftSize x"
      using refresh_frame_keeps [OF Cons.prems(1,2) True x'] by simp_all
    have "refresh_loop rnd fs (i + 1) x' \<noteq> None \<longleftrightarrow>
        i + 1 + int (length fs) \<le> fftSize x' \<or> fs = []"
      using k(1) Cons.prems(2) by (intro Cons.IH) simp_all
    then show ?thesis
      using x' k(2) True by auto
  next
    case False
    then have "refresh_frame (rnd (nat i)) x i f = None"
      using Cons.prems(1) by (intro refresh_frame_out) simp_all
    then show ?thesis using False by simp
  qed
qed

lemma step_loop_Some:
  assumes "tables_allocated x" and "0 < fftSize x"
  shows "\<exists>x' outs. step_loop ins x = Some (x', outs) \<and> tables_allocated x'
            \<and> fftSize x' = fftSize x \<and> length outs = length ins"
  using assms
proof (induction ins arbitrary: x)
  case Nil
  then show ?case by simp
next
  case (Cons f fs)
  obtain mag phase idx where f: "f = (mag, phase, idx)" by (cases f)
  let ?x1 = "stepped x (nat (step_bin x idx))"
  have a1: "tables_allocated ?x1" using Cons.prems(1) by (rule stepped_allocated)
  have p1: "0 < fftSize ?x1" using Cons.prems(2) by simp
  obtain x' outs where r: "step_loop fs ?x1 = Some (x', outs)" "tables_allocated x'"
      "fftSize x' = fftSize ?x1" "length outs = length fs"
    using Cons.IH [OF a1 p1] by blast
  show ?case
    using r by (simp add: f step_frame_Some [OF Cons.prems])
qed

lemma hits_Nil [simp]: "hits x b [] = 0"
  by (simp add: hits_def)

lemma hits_Cons:
  "hits x b ((mag, phase, idx) # fs) = (if step_bin x idx = b then 1 else 0) + hits x b fs"
  by (simp add: hits_def)

lemma hits_fftSize: "fftSize x' = fftSize x \<Longrightarrow> hits x' b ins = hits x b ins"
  by (simp add: hits_def step_bin_def)

lemma stepped_inc [simp]:
  "incMag (stepped x b) = incMag x" "incPhase (stepped x b) = incPhase x"
  by (simp_all add: stepped_def)

lemma stepped_curr:
  "j < length (currMag x) \<Longrightarrow>
     currMag (stepped x b) ! j = (if j = b then currMag x ! j + incMag x ! j else currMag x ! j)"
  "j < length (currPhase x) \<Longrightarrow>
     currPhase (stepped x b) ! j
       = (if j = b then currPhase x ! j + incPhase x ! j else currPhase x ! j)"
  by (simp_all add: stepped_def nth_list_update)

lemma step_loop_linear:
  assumes "tables_allocated x" and "0 < fftSize x" and "0 \<le> b" and "b < fftSize x"
  shows "\<exists>x' outs. step_loop ins x = Some (x', outs)
            \<and> incMag x' = incMag x \<and> incPhase x' = incPhase x
            \<and> currMag x' ! nat b = currMag x ! nat b + real (hits x b ins) * incMag x ! nat b
            \<and> currPhase x' ! nat b
                = currPhase x ! nat b + real (hits x b ins) * incPhase x ! nat b"
  using assms
proof (induction ins arbitrary: x)
  case Nil
  then show ?case by simp
next
  case (Cons f fs)
  obtain mag phase idx where f: "f = (mag, phase, idx)" by (cases f)
  let ?s = "nat (step_bin x idx)"
  let ?x1 = "stepped x ?s"
  have a1: "tables_allocated ?x1" using Cons.prems(1) by (rule stepped_allocated)
  have p1: "0 < fftSize ?x1" using Cons.prems(2) by simp
  have b1: "b < fftSize ?x1" using Cons.prems(4) by simp
  obtain x' outs where r: "step_loop fs ?x1 = Some (x', outs)"
      "incMag x' = incMag ?x1" "incPhase x' = incPhase ?x1"
      "currMag x' ! nat b = currMag ?x1 ! nat b + real (hits ?x1 b fs) * incMag ?x1 ! nat b"
      "currPhase x' ! nat b
         = currPhase ?x1 ! nat b + real (hits ?x1 b fs) * incPhase ?x1 ! nat b"
    using Cons.IH [OF a1 p1 Cons.prems(3) b1] by blast
  have h: "hits ?x1 b fs = hits x b fs" by (rule hits_fftSize) simp
  have sb: "0 \<le> step_bin x idx" using step_bin_range [OF Cons.prems(2)] by simp
  have eq: "nat b = ?s \<longleftrightarrow> step_bin x idx = b" using sb Cons.prems(3) by auto
  have len: "nat b < length (currMag x)" "nat b < length (currPhase x)"
    using Cons.prems(1,3,4) by (simp_all add: tables_allocated_def)
  have cm: "currMag x' ! nat b
      = currMag x ! nat b + real (hits x b (f # fs)) * incMag x ! nat b"
    using eq by (simp add: r(4) h f hits_Cons stepped_curr(1) [OF len(1)] algebra_simps)
  have cp: "currPhase x' ! nat b
      = currPhase x ! nat b + real (hits x b (f # fs)) * incPhase x ! nat b"
    using eq by (simp add: r(5) h f hits_Cons stepped_curr(2) [OF len(2)] algebra_simps)
  show ?case
    using r(1,2,3) cm cp by (simp add: f step_frame_Some [OF Cons.prems(1,2)])
qed

section \<open>The claims\<close>

subsection \<open>Configuration\<close>

lemma default_engine_retimed:
  "interpLengthFrames (setInterpolationTime (interp_new 44100 None []) 1 0) = 10"
  "interpVarianceFrames (setInterpolationTime (interp_new 44100 None []) 1 0) = 0"
  "interpMin (setInterpolationTime (interp_new 44100 None []) 1 0) = 10"
  "interpMax (setInterpolationTime (interp_new 44100 None []) 1 0) = 10"
  by (simp_all add: sit_min sit_max sit_lengthFrames sit_varianceFrames default_engine_config
      secondsToFrames_def f32_of_numerals f32_of_fractions CLAMP_def c_int_def MIN_LENGTH_def MAX_LENGTH_def MIN_VARIANCE_def
      MAX_VARIANCE_def)

lemma irand_top: "irand RAND_MAX 86 128 = 128"
  by (simp add: irand_def RAND_MAX_def c_int_def)

lemma bin_7_of_4096: "fftSize x = 4096 \<Longrightarrow> target_bin x 7 = 7"
  by (simp add: target_bin_def CLAMP_def c_int_def)

lemma f32_product_rounds: "secondsToFrames (1071307 / 1048576) 44100 4096 = 11"
  by (simp add: secondsToFrames_def f32_of_numerals f32_rounds_up c_int_def)

text \<open>
  Claim C6, as amended. After \<^verbatim>\<open>setInterpolationTime\<close> with any two arguments, on an
  object with a positive transform size, the base frame count is computed in single
  precision: the length argument converted to \<^verbatim>\<open>float\<close> and clamped, times the sample
  rate, the product rounded to \<^verbatim>\<open>float\<close>, divided by the transform size, the quotient
  rounded to \<^verbatim>\<open>float\<close>; the quotient is truncated toward zero by the cast to \<^verbatim>\<open>int\<close>
  and then raised to at least 1. The variance frame count is the same truncated
  single-precision quotient for the clamped variance. The minimum is the larger of
  base minus variance and 1; the maximum is base plus variance.
\<close>

theorem derived_frames_truncate:
  assumes "0 < fftSize x"
  shows "interpLengthFrames (setInterpolationTime x a b)
           = max 1 (c_int (f32 (f32 (CLAMP (f32 a) 0 30 * f32 (real_of_int (sampleRate x)))
                                / f32 (real_of_int (fftSize x)))))
       \<and> interpVarianceFrames (setInterpolationTime x a b)
           = c_int (f32 (f32 (CLAMP (f32 b) 0 15 * f32 (real_of_int (sampleRate x)))
                         / f32 (real_of_int (fftSize x))))
       \<and> interpMin (setInterpolationTime x a b)
           = max (interpLengthFrames (setInterpolationTime x a b)
                  - interpVarianceFrames (setInterpolationTime x a b)) 1
       \<and> interpMax (setInterpolationTime x a b)
           = interpLengthFrames (setInterpolationTime x a b)
             + interpVarianceFrames (setInterpolationTime x a b)"
proof (intro conjI)
  show "interpLengthFrames (setInterpolationTime x a b)
      = max 1 (c_int (f32 (f32 (CLAMP (f32 a) 0 30 * f32 (real_of_int (sampleRate x)))
                           / f32 (real_of_int (fftSize x)))))"
    by (simp add: sit_lengthFrames secondsToFrames_def MIN_LENGTH_def MAX_LENGTH_def)
  show "interpVarianceFrames (setInterpolationTime x a b)
      = c_int (f32 (f32 (CLAMP (f32 b) 0 15 * f32 (real_of_int (sampleRate x)))
                    / f32 (real_of_int (fftSize x))))"
    by (simp add: sit_varianceFrames secondsToFrames_def MIN_VARIANCE_def MAX_VARIANCE_def)
  show "interpMin (setInterpolationTime x a b)
      = max (interpLengthFrames (setInterpolationTime x a b)
             - interpVarianceFrames (setInterpolationTime x a b)) 1"
    by (rule sit_min)
  show "interpMax (setInterpolationTime x a b)
      = interpLengthFrames (setInterpolationTime x a b)
        + interpVarianceFrames (setInterpolationTime x a b)"
    by (rule sit_max)
qed

text \<open>
  Two instances on the default object at 44100 Hz with 4096 bins. A length of 1 second
  gives the quotient 10.77 and the count 10. A length of 1071307 / 1048576 seconds gives
  the exact product 45055.9998, which single precision rounds to 45056, and the count
  11 where the exact quotient would give 10.
\<close>

theorem derived_frames_truncate_witness:
  "0 < fftSize (interp_new 44100 None [])
   \<and> interpLengthFrames (setInterpolationTime (interp_new 44100 None []) 1 0) = 10
   \<and> interpVarianceFrames (setInterpolationTime (interp_new 44100 None []) 1 0) = 0
   \<and> interpMin (setInterpolationTime (interp_new 44100 None []) 1 0) = 10
   \<and> interpMax (setInterpolationTime (interp_new 44100 None []) 1 0) = 10
   \<and> interpLengthFrames
        (setInterpolationTime (interp_new 44100 None []) (1071307 / 1048576) 0) = 11"
proof -
  have h: "0 < fftSize (interp_new 44100 None [])"
    by (simp add: default_engine_config)
  have e: "f32 (1071307 / 1048576) = 1071307 / 1048576"
    using f32_exact [of 1071307 20] by simp
  have "interpLengthFrames (setInterpolationTime (interp_new 44100 None []) 1 0) = 10
      \<and> interpVarianceFrames (setInterpolationTime (interp_new 44100 None []) 1 0) = 0
      \<and> interpMin (setInterpolationTime (interp_new 44100 None []) 1 0) = 10
      \<and> interpMax (setInterpolationTime (interp_new 44100 None []) 1 0) = 10"
    using derived_frames_truncate [OF h, of 1 0]
    by (simp add: default_engine_config CLAMP_def c_int_def f32_of_numerals f32_of_fractions)
  moreover have "interpLengthFrames
      (setInterpolationTime (interp_new 44100 None []) (1071307 / 1048576) 0) = 11"
    using derived_frames_truncate [OF h, of "1071307 / 1048576" 0]
    by (simp add: default_engine_config CLAMP_def c_int_def e f32_of_numerals f32_rounds_up)
  ultimately show ?thesis using h by simp
qed

text \<open>
  Claim C6 as stated has the frame counts rounded to the nearest integer. For the default
  object at 44100 Hz with 4096 bins, a length of 1 second gives 44100 / 4096 = 10.77
  frames: rounding gives 11, the source stores 10.
\<close>

theorem derived_frames_round_counterexample:
  "sampleRate (interp_new 44100 None []) = 44100
   \<and> fftSize (interp_new 44100 None []) = 4096
   \<and> interpLengthSecs (setInterpolationTime (interp_new 44100 None []) 1 0) = 1
   \<and> max 1 (spec_secondsToFrames 1 44100 4096) = 11
   \<and> interpLengthFrames (setInterpolationTime (interp_new 44100 None []) 1 0) = 10"
  by (simp add: default_engine_config default_engine_retimed sit_secs spec_secondsToFrames_def f32_of_numerals f32_of_fractions
      round_def CLAMP_def MIN_LENGTH_def MAX_LENGTH_def)

text \<open>
  Claim C7. After construction, and after every call of \<^verbatim>\<open>setInterpolationTime\<close>
  whatever its two arguments, the minimum frame count is at least 1 and does not exceed
  the maximum. The sample rate is not negative and the transform size is positive, as
  the host and \<^verbatim>\<open>getFFTSize\<close> deliver them.
\<close>

theorem config_invariant:
  assumes "0 \<le> sr" and "0 < getFFTSize pfft" and "0 \<le> sampleRate x" and "0 < fftSize x"
  shows "1 \<le> interpMin (interp_new sr pfft argv)
       \<and> interpMin (interp_new sr pfft argv) \<le> interpMax (interp_new sr pfft argv)
       \<and> 1 \<le> interpMin (setInterpolationTime x a b)
       \<and> interpMin (setInterpolationTime x a b) \<le> interpMax (setInterpolationTime x a b)"
proof -
  let ?c = "cleared\<lparr>sampleRate := c_int sr, fftSize := getFFTSize pfft\<rparr>"
  have "0 \<le> sampleRate ?c" using assms(1) by (simp add: c_int_nonneg)
  moreover have "0 < fftSize ?c" using assms(2) by simp
  ultimately have n: "1 \<le> interpMin (new_config sr pfft argv)
      \<and> interpMin (new_config sr pfft argv) \<le> interpMax (new_config sr pfft argv)"
    unfolding new_config_def by (rule sit_invariant)
  have s: "1 \<le> interpMin (setInterpolationTime x a b)
      \<and> interpMin (setInterpolationTime x a b) \<le> interpMax (setInterpolationTime x a b)"
    using assms(3,4) by (rule sit_invariant)
  show ?thesis
    using n s by (simp add: interp_new_config)
qed

theorem config_invariant_witness:
  "(0::real) \<le> 44100 \<and> 0 < getFFTSize None
   \<and> 0 \<le> sampleRate (interp_new 44100 None []) \<and> 0 < fftSize (interp_new 44100 None [])
   \<and> 1 \<le> interpMin (interp_new 44100 None [])
   \<and> interpMin (interp_new 44100 None []) \<le> interpMax (interp_new 44100 None [])
   \<and> 1 \<le> interpMin (setInterpolationTime (interp_new 44100 None []) 1 0)
   \<and> interpMin (setInterpolationTime (interp_new 44100 None []) 1 0)
       \<le> interpMax (setInterpolationTime (interp_new 44100 None []) 1 0)"
proof -
  have h1: "(0::real) \<le> 44100" by simp
  have h2: "0 < getFFTSize None" by (simp add: getFFTSize_def DEFAULT_FFT_SIZE_def)
  have h3: "0 \<le> sampleRate (interp_new 44100 None [])" by (simp add: default_engine_config)
  have h4: "0 < fftSize (interp_new 44100 None [])" by (simp add: default_engine_config)
  show ?thesis
    using h1 h2 h3 h4 config_invariant [OF h1 h2 h3 h4, of "[]" 1 0] by simp
qed

text \<open>
  Claim C5. The total that \<^verbatim>\<open>updateTarget\<close> draws and stores for the resolved bin lies
  between the minimum and the maximum frame count of the configuration in effect at
  the call, which the call leaves unchanged; and a draw from a range whose two ends
  coincide returns that value. The value \<open>r\<close> of \<^verbatim>\<open>random()\<close> is at most
  \<^verbatim>\<open>RAND_MAX\<close>, and the configuration satisfies the invariant of claim C7.
\<close>

theorem drawn_totalFrames_bounds:
  assumes "tables_allocated x" and "0 < fftSize x" and "r \<le> RAND_MAX"
    and "interpMin x \<le> interpMax x"
  shows "\<exists>x'. updateTarget x r mag phase idx = Some x'
           \<and> interpMin x' = interpMin x \<and> interpMax x' = interpMax x
           \<and> totalFrames x' ! nat (target_bin x idx) = irand r (interpMin x) (interpMax x)
           \<and> interpMin x \<le> totalFrames x' ! nat (target_bin x idx)
           \<and> totalFrames x' ! nat (target_bin x idx) \<le> interpMax x
           \<and> irand r (interpMin x) (interpMin x) = interpMin x"
proof -
  let ?b = "nat (target_bin x idx)"
  let ?n = "irand r (interpMin x) (interpMax x)"
  have "?b < nat (fftSize x)"
    using target_bin_range [OF assms(2), of idx] by simp
  then have len: "?b < length (totalFrames x)"
    using assms(1) by (simp add: tables_allocated_def)
  have tot: "totalFrames (acquired x ?b ?n mag phase) ! ?b = ?n"
    using len by (rule acquired_total)
  have cfg: "interpMin (acquired x ?b ?n mag phase) = interpMin x"
    "interpMax (acquired x ?b ?n mag phase) = interpMax x"
    by (simp_all add: acquired_def)
  have bnd: "interpMin x \<le> ?n \<and> ?n \<le> interpMax x"
    using assms(3,4) by (rule irand_bounds)
  have upd: "updateTarget x r mag phase idx = Some (acquired x ?b ?n mag phase)"
    using assms(1,2) by (rule updateTarget_Some)
  show ?thesis
  proof (intro exI conjI)
    show "updateTarget x r mag phase idx = Some (acquired x ?b ?n mag phase)"
      by (rule upd)
    show "interpMin (acquired x ?b ?n mag phase) = interpMin x" by (rule cfg(1))
    show "interpMax (acquired x ?b ?n mag phase) = interpMax x" by (rule cfg(2))
    show "totalFrames (acquired x ?b ?n mag phase) ! ?b = ?n" by (rule tot)
    show "interpMin x \<le> totalFrames (acquired x ?b ?n mag phase) ! ?b"
      using bnd by (simp only: tot)
    show "totalFrames (acquired x ?b ?n mag phase) ! ?b \<le> interpMax x"
      using bnd by (simp only: tot)
    show "irand r (interpMin x) (interpMin x) = interpMin x"
      by (rule irand_degenerate)
  qed
qed

theorem drawn_totalFrames_bounds_witness:
  "tables_allocated (interp_new 44100 None []) \<and> 0 < fftSize (interp_new 44100 None [])
   \<and> RAND_MAX \<le> RAND_MAX
   \<and> interpMin (interp_new 44100 None []) \<le> interpMax (interp_new 44100 None [])
   \<and> (\<exists>x'. updateTarget (interp_new 44100 None []) RAND_MAX 5 0 7 = Some x'
          \<and> interpMin x' = 86 \<and> interpMax x' = 128 \<and> totalFrames x' ! 7 = 128)"
proof -
  let ?x = "interp_new 44100 None []"
  have h1: "tables_allocated ?x" by (rule interp_new_allocated)
  have h2: "0 < fftSize ?x" by (simp add: default_engine_config)
  have h3: "RAND_MAX \<le> RAND_MAX" by simp
  have h4: "interpMin ?x \<le> interpMax ?x" by (simp add: default_engine_config)
  have b: "nat (target_bin ?x 7) = 7"
    by (simp add: bin_7_of_4096 default_engine_config)
  obtain x' where u: "updateTarget ?x RAND_MAX 5 0 7 = Some x'"
      "interpMin x' = interpMin ?x" "interpMax x' = interpMax ?x"
      "totalFrames x' ! nat (target_bin ?x 7) = irand RAND_MAX (interpMin ?x) (interpMax ?x)"
    using drawn_totalFrames_bounds [OF h1 h2 h3 h4, of 5 0 7] by blast
  have "updateTarget ?x RAND_MAX 5 0 7 = Some x' \<and> interpMin x' = 86 \<and> interpMax x' = 128
      \<and> totalFrames x' ! 7 = 128"
    using u by (simp add: b default_engine_config irand_top)
  then have "\<exists>x'. updateTarget ?x RAND_MAX 5 0 7 = Some x' \<and> interpMin x' = 86
      \<and> interpMax x' = 128 \<and> totalFrames x' ! 7 = 128" ..
  then show ?thesis
    using h1 h2 h3 h4 by simp
qed

text \<open>
  Claim C3, evaluated on the source. The object is created outside pfft~ at 44100 Hz
  with the default arguments (10 s, 2 s) and the host then starts audio at 88200 Hz.
  \<^verbatim>\<open>interp_dsp64\<close> stores the new rate, but the frame counts keep the values computed
  for 44100 Hz (107 and 21, range 86 to 128), while the stored seconds at the new rate
  give 215 and 43.
\<close>

theorem rate_change_keeps_frame_counts:
  "\<exists>x'. interp_dsp64 (interp_new 44100 None []) 88200 = Some x'
        \<and> sampleRate x' = 88200 \<and> fftSize x' = 4096
        \<and> interpLengthSecs x' = 10 \<and> interpVarianceSecs x' = 2
        \<and> interpLengthFrames x' = 107
        \<and> secondsToFrames (interpLengthSecs x') (sampleRate x') (fftSize x') = 215
        \<and> interpVarianceFrames x' = 21
        \<and> secondsToFrames (interpVarianceSecs x') (sampleRate x') (fftSize x') = 43
        \<and> interpMin x' = 86 \<and> interpMax x' = 128"
proof -
  let ?x = "interp_new 44100 None []"
  have "length (updateTargetFlags ?x) = nat (fftSize ?x)"
    by (simp add: interp_new_tables interp_new_scalars)
  then have "interp_dsp64 ?x 88200 =
      Some (?x\<lparr>sampleRate := c_int 88200, updateTargetFlags := replicate (nat (fftSize ?x)) 1\<rparr>)"
    by (rule interp_dsp64_Some)
  then show ?thesis
    by (simp add: default_engine_config secondsToFrames_def f32_of_numerals f32_of_fractions c_int_def)
qed

text \<open>
  Claim C4, as amended. Immediately after construction every entry of every table is
  zero, the flag included, so no flag is raised. Every flag is raised when audio is
  started: \<^verbatim>\<open>interp_dsp64\<close>, which the host calls before the first block, sets the flag
  of every bin to 1, stores the sample rate and changes nothing else.
\<close>

theorem construction_clears_dsp_raises:
  "currMag (interp_new sr pfft argv) = replicate (nat (getFFTSize pfft)) 0
   \<and> currPhase (interp_new sr pfft argv) = replicate (nat (getFFTSize pfft)) 0
   \<and> targetMag (interp_new sr pfft argv) = replicate (nat (getFFTSize pfft)) 0
   \<and> targetPhase (interp_new sr pfft argv) = replicate (nat (getFFTSize pfft)) 0
   \<and> incMag (interp_new sr pfft argv) = replicate (nat (getFFTSize pfft)) 0
   \<and> incPhase (interp_new sr pfft argv) = replicate (nat (getFFTSize pfft)) 0
   \<and> totalFrames (interp_new sr pfft argv) = replicate (nat (getFFTSize pfft)) 0
   \<and> frameCount (interp_new sr pfft argv) = replicate (nat (getFFTSize pfft)) 0
   \<and> updateTargetFlags (interp_new sr pfft argv) = replicate (nat (getFFTSize pfft)) 0
   \<and> interp_dsp64 (interp_new sr pfft argv) sr' =
        Some ((interp_new sr pfft argv)
               \<lparr>sampleRate := c_int sr',
                updateTargetFlags := replicate (nat (getFFTSize pfft)) 1\<rparr>)"
proof -
  have "length (updateTargetFlags (interp_new sr pfft argv))
      = nat (fftSize (interp_new sr pfft argv))"
    by (simp add: interp_new_tables interp_new_scalars)
  then have "interp_dsp64 (interp_new sr pfft argv) sr' =
      Some ((interp_new sr pfft argv)
             \<lparr>sampleRate := c_int sr',
              updateTargetFlags := replicate (nat (fftSize (interp_new sr pfft argv))) 1\<rparr>)"
    by (rule interp_dsp64_Some)
  then show ?thesis
    by (simp add: interp_new_tables interp_new_scalars)
qed

text \<open>
  Claim C4 as stated has the flag true immediately after construction. For the default
  object the flag of bin 0 reads 0 after \<^verbatim>\<open>interp_new\<close>.
\<close>

theorem flags_clear_after_new_counterexample:
  "fftSize (interp_new 44100 None []) = 4096
   \<and> rd (updateTargetFlags (interp_new 44100 None [])) 0 = Some 0"
  by (simp add: default_engine_config interp_new_tables getFFTSize_def DEFAULT_FFT_SIZE_def
      rd_def)

subsection \<open>Index safety\<close>

lemma default_bins:
  "step_bin (interp_new 44100 None []) (- 3) = 0"
  "target_bin (interp_new 44100 None []) (- 3) = 0"
  "step_bin (interp_new 44100 None []) 5000 = 4095"
  "target_bin (interp_new 44100 None []) 5000 = 4095"
  by (simp_all add: step_bin_def int_cast_def target_bin_def default_engine_config CLAMP_def c_int_def)

lemma two_bin_engine:
  "fftSize (interp_new 44100 (Some 2) []) = 2"
  by (simp add: interp_new_scalars getFFTSize_def)

text \<open>
  Inside the range of \<^verbatim>\<open>int\<close> the second loop and \<^verbatim>\<open>updateTarget\<close> resolve the same bin,
  the truncated input clamped into 0 .. fftSize - 1. For every input the bin of either
  is inside the tables, and neither a single step, nor an acquisition, nor the second
  loop over a whole block makes an access outside them.
\<close>

lemma bins_clamped_in_int_range:
  assumes "0 < fftSize x" and "- 2147483649 < idx" and "idx < 2147483648"
  shows "step_bin x idx = max 0 (min (fftSize x - 1) (c_int idx))
       \<and> target_bin x idx = max 0 (min (fftSize x - 1) (c_int idx))"
  using step_bin_clamp [OF assms] target_bin_clamp [OF assms(1), of idx] by simp

lemma passes_stay_in_tables:
  assumes "tables_allocated x" and "0 < fftSize x"
  shows "0 \<le> step_bin x idx \<and> step_bin x idx \<le> fftSize x - 1
       \<and> 0 \<le> target_bin x idx \<and> target_bin x idx \<le> fftSize x - 1
       \<and> target_bin x idx = max 0 (min (fftSize x - 1) (c_int idx))
       \<and> step_frame x (mag, phase, idx) \<noteq> None
       \<and> updateTarget x r mag phase idx \<noteq> None
       \<and> step_loop ins x \<noteq> None"
proof -
  have s: "0 \<le> step_bin x idx \<and> step_bin x idx < fftSize x"
    using assms(2) by (rule step_bin_range)
  have t: "0 \<le> target_bin x idx \<and> target_bin x idx < fftSize x"
    using assms(2) by (rule target_bin_range)
  have sf: "step_frame x (mag, phase, idx) \<noteq> None"
    by (simp add: step_frame_Some [OF assms])
  have ut: "updateTarget x r mag phase idx \<noteq> None"
    by (simp add: updateTarget_Some [OF assms])
  obtain x' outs where "step_loop ins x = Some (x', outs)"
    using step_loop_Some [OF assms, of ins] by blast
  then have sl: "step_loop ins x \<noteq> None" by simp
  show ?thesis
    using s t sf ut sl target_bin_clamp [OF assms(2), of idx] by simp
qed

text \<open>
  Claim C8, evaluated on the source. The default object (4096 bins) receives the
  bin-index input 3000000000. \<^verbatim>\<open>updateTarget\<close> clamps the double first and resolves
  bin 4095, the valid bin nearest to the input. The second loop casts first: the value
  does not fit \<^verbatim>\<open>int\<close>, so C leaves the cast undefined; the compiled cast delivers the
  most negative \<^verbatim>\<open>int\<close> and the clamp resolves bin 0. The access stays inside the
  tables, but the index is not clamped to the nearest bin and the two passes address
  different bins for the same input.
\<close>

theorem step_pass_casts_before_clamp:
  "fftSize (interp_new 44100 None []) = 4096
   \<and> max 0 (min (fftSize (interp_new 44100 None []) - 1) (c_int 3000000000)) = 4095
   \<and> target_bin (interp_new 44100 None []) 3000000000 = 4095
   \<and> int_cast 3000000000 = - 2147483648
   \<and> step_bin (interp_new 44100 None []) 3000000000 = 0"
  by (simp add: step_bin_def int_cast_def target_bin_def default_engine_config CLAMP_def
      c_int_def)

text \<open>
  Claim C10. The first loop reads the flag table at every position of the block without
  clamping the position, so it stays inside the tables exactly when the block is no
  longer than the transform size.
\<close>

theorem refresh_pass_block_bound:
  assumes "tables_allocated x" and "0 < fftSize x"
  shows "(refresh_loop rnd ins 0 x \<noteq> None) = (int (length ins) \<le> fftSize x)"
  using refresh_loop_in_bounds [OF assms(1), of 0 rnd ins] assms(2) by auto

theorem refresh_pass_block_bound_witness:
  "tables_allocated (interp_new 44100 (Some 2) []) \<and> 0 < fftSize (interp_new 44100 (Some 2) [])
   \<and> refresh_loop (\<lambda>_. 0) [(1, 0, 0), (2, 0, 1)] 0 (interp_new 44100 (Some 2) []) \<noteq> None
   \<and> refresh_loop (\<lambda>_. 0) [(1, 0, 0), (2, 0, 1), (3, 0, 0)] 0 (interp_new 44100 (Some 2) [])
       = None"
proof -
  let ?x = "interp_new 44100 (Some 2) []"
  have h1: "tables_allocated ?x" by (rule interp_new_allocated)
  have h2: "0 < fftSize ?x" by (simp add: two_bin_engine)
  show ?thesis
    using h1 h2
      refresh_pass_block_bound [OF h1 h2, of "\<lambda>_. 0" "[(1, 0, 0), (2, 0, 1)]"]
      refresh_pass_block_bound [OF h1 h2, of "\<lambda>_. 0" "[(1, 0, 0), (2, 0, 1), (3, 0, 0)]"]
    by (simp add: two_bin_engine)
qed

subsection \<open>The refresh pass\<close>

lemma one_frame_config:
  "interpMin (interp_new 44100 None [0, 0]) = 1"
  "interpMax (interp_new 44100 None [0, 0]) = 1"
  "fftSize (interp_new 44100 None [0, 0]) = 4096"
  by (simp_all add: interp_new_config interp_new_scalars new_config_def sit_min sit_max
      sit_lengthFrames sit_varianceFrames sit_secs cleared_def getFFTSize_def
      DEFAULT_FFT_SIZE_def secondsToFrames_def f32_of_numerals f32_of_fractions
      CLAMP_def c_int_def MIN_LENGTH_def MAX_LENGTH_def MIN_VARIANCE_def MAX_VARIANCE_def)

lemma bins_4096:
  "fftSize x = 4096 \<Longrightarrow> target_bin x 1 = 1"
  "fftSize x = 4096 \<Longrightarrow> step_bin x 1 = 1"
  by (simp_all add: target_bin_def step_bin_def int_cast_def CLAMP_def c_int_def)




lemma acquired_keeps_curr [simp]:
  "currMag (acquired x b n mag phase) = currMag x"
  "currPhase (acquired x b n mag phase) = currPhase x"
  by (simp_all add: acquired_def)








text \<open>
  When the bin-index input of a frame resolves to the frame's own position, as it does
  for the index stream of pfft~, the carry and the acquisition act on the same bin: the
  new leg of that bin starts from its previous target and the increment is derived from
  that value.
\<close>

lemma refresh_aligned_starts_from_target:
  assumes "tables_allocated x" and "0 \<le> i" and "i < fftSize x"
    and "updateTargetFlags x ! nat i \<noteq> 0" and "target_bin x idx = i"
  shows "\<exists>x'. refresh_frame r x i (mag, phase, idx) = Some x'
           \<and> currMag x' ! nat i = targetMag x ! nat i
           \<and> currPhase x' ! nat i = targetPhase x ! nat i
           \<and> incMag x' ! nat i
               = (mag - targetMag x ! nat i) / real_of_int (totalFrames x' ! nat i)
           \<and> incPhase x' ! nat i
               = (phase - targetPhase x ! nat i) / real_of_int (totalFrames x' ! nat i)"
proof -
  let ?n = "irand r (interpMin x) (interpMax x)"
  let ?y = "acquired (carried x (nat i)) (nat i) ?n mag phase"
  have ni: "nat i < nat (fftSize x)" using assms(2,3) by simp
  have lens: "length (currMag x) = nat (fftSize x)" "length (currPhase x) = nat (fftSize x)"
      "length (incMag x) = nat (fftSize x)" "length (incPhase x) = nat (fftSize x)"
      "length (totalFrames x) = nat (fftSize x)"
    using assms(1) by (simp_all add: tables_allocated_def)
  have r: "refresh_frame r x i (mag, phase, idx) = Some ?y"
    using refresh_frame_Some [OF assms(1,2,3), of r mag phase idx] assms(4,5) by simp
  have v: "currMag ?y ! nat i = targetMag x ! nat i"
      "currPhase ?y ! nat i = targetPhase x ! nat i"
      "incMag ?y ! nat i = (mag - targetMag x ! nat i) / real_of_int (totalFrames ?y ! nat i)"
      "incPhase ?y ! nat i = (phase - targetPhase x ! nat i) / real_of_int (totalFrames ?y ! nat i)"
    using ni by (simp_all add: acquired_def carried_def lens)
  show ?thesis
    using r v by (intro exI [of _ ?y] conjI)
qed

text \<open>
  Claim C1, evaluated on the source. The object \<^verbatim>\<open>nb.binterpolate~ 0 0\<close> is created
  outside pfft~ at 44100 Hz, audio is started, and two blocks of two frames arrive, all
  four frames with bin-index input 1. In the first block bin 1 acquires the target 5,
  reaches it on the first frame, which completes the leg and raises its flag, and is
  stepped once more to 10. In the second block the refresh at position 0 starts a new
  leg for bin 1 with target 7: the current value of bin 1 at the start of that leg is
  10, not the target 5 of the completed leg, and the increment is derived from 10.
\<close>

theorem restart_from_overshoot:
  "\<exists>x1 x2 outs x3.
      interp_dsp64 (interp_new 44100 None [0, 0]) 44100 = Some x1
    \<and> interp_perform64 (\<lambda>_. 0) x1 [(5, 0, 1), (6, 0, 1)] = Some (x2, outs)
    \<and> outs = [(5, 0), (10, 0)]
    \<and> updateTargetFlags x2 ! 1 = 1 \<and> targetMag x2 ! 1 = 5
    \<and> refresh_loop (\<lambda>_. 0) [(7, 0, 1), (8, 0, 1)] 0 x2 = Some x3
    \<and> updateTargetFlags x3 ! 1 = 0 \<and> frameCount x3 ! 1 = 0
    \<and> targetMag x3 ! 1 = 7 \<and> currMag x3 ! 1 = 10 \<and> incMag x3 ! 1 = - 3"
proof -
  define x0 where "x0 = interp_new 44100 None [0, 0]"
  define x1 where "x1 = x0\<lparr>sampleRate := c_int 44100, updateTargetFlags := replicate (nat (fftSize x0)) 1\<rparr>"
  have f0: "fftSize x0 = 4096" and cfg0: "interpMin x0 = 1" "interpMax x0 = 1"
    by (simp_all add: x0_def one_frame_config)
  have al0: "tables_allocated x0" by (simp add: x0_def interp_new_allocated)
  have d: "interp_dsp64 x0 44100 = Some x1"
    unfolding x1_def using al0 by (intro interp_dsp64_Some) (simp add: tables_allocated_def)
  have al1: "tables_allocated x1" using al0 by (simp add: tables_allocated_def x1_def)
  have f1: "fftSize x1 = 4096" by (simp add: x1_def f0)
  have cfg1: "interpMin x1 = 1" "interpMax x1 = 1" by (simp_all add: x1_def cfg0)
  have t1: "currMag x1 = replicate 4096 0" "targetMag x1 = replicate 4096 0"
     "currPhase x1 = replicate 4096 0" "targetPhase x1 = replicate 4096 0"
     "incMag x1 = replicate 4096 0" "incPhase x1 = replicate 4096 0"
     "totalFrames x1 = replicate 4096 0" "frameCount x1 = replicate 4096 0"
     "updateTargetFlags x1 = replicate 4096 1"
    by (simp_all add: x1_def x0_def interp_new_tables getFFTSize_def DEFAULT_FFT_SIZE_def f0 [unfolded x0_def])
  define y1 where "y1 = acquired (carried x1 0) 1 1 5 0"
  have r0: "refresh_frame 0 x1 0 (5, 0, 1) = Some y1"
    using refresh_frame_Some [OF al1, of 0 0 5 0 1]
    by (simp add: f1 t1 cfg1 bins_4096 irand_degenerate y1_def)
  have aly1: "tables_allocated y1"
    unfolding y1_def using al1 by (intro acquired_allocated carried_allocated)
  have fy1: "fftSize y1 = 4096" by (simp add: y1_def f1)
  have fl1: "updateTargetFlags y1 ! 1 = 0"
    by (simp add: y1_def acquired_def carried_def t1)
  have r1: "refresh_frame 0 y1 1 (6, 0, 1) = Some y1"
    using refresh_frame_Some [OF aly1, of 1 0 6 0 1] by (simp add: fy1 fl1 [unfolded One_nat_def])
  have rl: "refresh_loop (\<lambda>_. 0) [(5, 0, 1), (6, 0, 1)] 0 x1 = Some y1"
    by (simp add: r0 r1)
  define y2 where "y2 = stepped y1 1"
  define x2 where "x2 = stepped y2 1"
  have s1: "step_frame y1 (5, 0, 1) = Some (y2, 5, 0)"
    using step_frame_Some [OF aly1, of 5 0 1]
    by (simp add: fy1 bins_4096 y2_def) (simp add: y1_def acquired_def carried_def t1)
  have aly2: "tables_allocated y2" unfolding y2_def using aly1 by (rule stepped_allocated)
  have fy2: "fftSize y2 = 4096" by (simp add: y2_def fy1)
  have s2: "step_frame y2 (6, 0, 1) = Some (x2, 10, 0)"
    using step_frame_Some [OF aly2, of 6 0 1]
    by (simp add: fy2 bins_4096 x2_def)
       (simp add: y2_def stepped_def y1_def acquired_def carried_def t1)
  have sl: "step_loop [(5, 0, 1), (6, 0, 1)] y1 = Some (x2, [(5, 0), (10, 0)])"
    by (simp add: s1 s2)
  have p: "interp_perform64 (\<lambda>_. 0) x1 [(5, 0, 1), (6, 0, 1)] = Some (x2, [(5, 0), (10, 0)])"
    by (simp only: interp_perform64_def rl sl option.case)
  have alx2: "tables_allocated x2" unfolding x2_def using aly2 by (rule stepped_allocated)
  have fx2: "fftSize x2 = 4096" by (simp add: x2_def fy2)
  have v2: "updateTargetFlags x2 ! 1 = 1" "targetMag x2 ! 1 = 5" "updateTargetFlags x2 ! 0 = 1"
      "currMag x2 ! 1 = 10" "interpMin x2 = 1" "interpMax x2 = 1"
    by (simp_all add: x2_def y2_def stepped_def y1_def acquired_def carried_def t1 cfg1)
  define y3 where "y3 = acquired (carried x2 0) 1 1 7 0"
  have r2: "refresh_frame 0 x2 0 (7, 0, 1) = Some y3"
    using refresh_frame_Some [OF alx2, of 0 0 7 0 1]
    by (simp add: fx2 v2 bins_4096 irand_degenerate y3_def)
  have aly3: "tables_allocated y3"
    unfolding y3_def using alx2 by (intro acquired_allocated carried_allocated)
  have fy3: "fftSize y3 = 4096" by (simp add: y3_def fx2)
  have len2: "length (updateTargetFlags x2) = 4096" "length (frameCount x2) = 4096"
     "length (targetMag x2) = 4096" "length (currMag x2) = 4096" "length (incMag x2) = 4096"
    using alx2 by (simp_all add: tables_allocated_def fx2)
  have v3: "updateTargetFlags y3 ! 1 = 0" "frameCount y3 ! 1 = 0" "targetMag y3 ! 1 = 7"
      "currMag y3 ! 1 = 10" "incMag y3 ! 1 = - 3"
    by (simp_all add: y3_def acquired_def carried_def len2 v2 [unfolded One_nat_def])
  have r3: "refresh_frame 0 y3 1 (8, 0, 1) = Some y3"
    using refresh_frame_Some [OF aly3, of 1 0 8 0 1] by (simp add: fy3 v3 [unfolded One_nat_def])
  have rl2: "refresh_loop (\<lambda>_. 0) [(7, 0, 1), (8, 0, 1)] 0 x2 = Some y3"
    by (simp add: r2 r3)
  show ?thesis
    using d [unfolded x0_def] p v2(1,2) rl2 v3 by blast
qed

subsection \<open>Stepping\<close>

lemma two_frame_engine:
  "interpMin (interp_new 44100 None [1 / 4, 0]) = 2"
  "interpMax (interp_new 44100 None [1 / 4, 0]) = 2"
  "fftSize (interp_new 44100 None [1 / 4, 0]) = 4096"
  by (simp_all add: interp_new_config interp_new_scalars new_config_def sit_min sit_max
      sit_lengthFrames sit_varianceFrames sit_secs cleared_def getFFTSize_def
      DEFAULT_FFT_SIZE_def secondsToFrames_def f32_of_numerals f32_of_fractions
      CLAMP_def c_int_def MIN_LENGTH_def MAX_LENGTH_def MIN_VARIANCE_def MAX_VARIANCE_def)

lemma two_frame_leg_allocated:
  "tables_allocated (acquired (interp_new 44100 None [1 / 4, 0]) 2 2 5 3)"
  by (intro acquired_allocated interp_new_allocated)

lemma two_frame_leg:
  "currMag (interp_new 44100 None [1 / 4, 0]) ! 2 = 0"
  "currPhase (interp_new 44100 None [1 / 4, 0]) ! 2 = 0"
  "incMag (acquired (interp_new 44100 None [1 / 4, 0]) 2 2 5 3) ! 2 = 5 / 2"
  "incPhase (acquired (interp_new 44100 None [1 / 4, 0]) 2 2 5 3) ! 2 = 3 / 2"
  by (simp_all add: two_frame_engine acquired_def
      interp_new_tables getFFTSize_def DEFAULT_FFT_SIZE_def)

lemma two_frame_leg_acquired:
  "updateTarget (interp_new 44100 None [1 / 4, 0]) 0 5 3 2
     = Some (acquired (interp_new 44100 None [1 / 4, 0]) 2 2 5 3)"
  using updateTarget_Some [OF interp_new_allocated, of 44100 None "[1 / 4, 0]" 0 5 3 2]
  by (simp add: two_frame_engine target_bin_def CLAMP_def c_int_def irand_degenerate)

lemma two_frame_leg_hits:
  "hits (acquired (interp_new 44100 None [1 / 4, 0]) 2 2 5 3) 2 [(0, 0, 2), (0, 0, 7), (0, 0, 2)] = 2"
  by (simp add: hits_def step_bin_def int_cast_def two_frame_engine CLAMP_def c_int_def)

text \<open>
  Claim C9. Take a bin \<open>b\<close> at the start of a leg of length \<open>T\<close>: its increments are
  (target - current) / \<open>T\<close> for magnitude and phase. After the second loop has run over
  any frames, \<open>k\<close> of which resolve to \<open>b\<close>, the current value of \<open>b\<close> is the initial
  value plus \<open>k\<close> times the increment; and the initial value plus \<open>T\<close> times the
  increment is the target, so at \<open>k = T\<close> the current value is the target. Values are
  exact reals here, which is the sense of the tolerance in the claim.
\<close>

theorem linear_approach:
  assumes "tables_allocated x" and "0 < fftSize x" and "0 \<le> b" and "b < fftSize x"
    and "T \<noteq> 0"
    and "incMag x ! nat b = (tgtM - currMag x ! nat b) / real_of_int T"
    and "incPhase x ! nat b = (tgtP - currPhase x ! nat b) / real_of_int T"
  shows "\<exists>x' outs. step_loop ins x = Some (x', outs)
            \<and> currMag x' ! nat b = currMag x ! nat b + real (hits x b ins) * incMag x ! nat b
            \<and> currPhase x' ! nat b
                = currPhase x ! nat b + real (hits x b ins) * incPhase x ! nat b
            \<and> currMag x ! nat b + real_of_int T * incMag x ! nat b = tgtM
            \<and> currPhase x ! nat b + real_of_int T * incPhase x ! nat b = tgtP"
proof -
  obtain x' outs where r: "step_loop ins x = Some (x', outs)"
      "currMag x' ! nat b = currMag x ! nat b + real (hits x b ins) * incMag x ! nat b"
      "currPhase x' ! nat b
         = currPhase x ! nat b + real (hits x b ins) * incPhase x ! nat b"
    using step_loop_linear [OF assms(1-4), of ins] by blast
  have nz: "real_of_int T \<noteq> 0" using assms(5) by simp
  have m: "currMag x ! nat b + real_of_int T * incMag x ! nat b = tgtM"
    using nz by (simp add: assms(6))
  have p: "currPhase x ! nat b + real_of_int T * incPhase x ! nat b = tgtP"
    using nz by (simp add: assms(7))
  show ?thesis
    using r m p by (intro exI conjI)
qed

theorem linear_approach_witness:
  "updateTarget (interp_new 44100 None [1 / 4, 0]) 0 5 3 2
     = Some (acquired (interp_new 44100 None [1 / 4, 0]) 2 2 5 3)
   \<and> tables_allocated (acquired (interp_new 44100 None [1 / 4, 0]) 2 2 5 3)
   \<and> 0 < fftSize (acquired (interp_new 44100 None [1 / 4, 0]) 2 2 5 3)
   \<and> (0::int) \<le> 2 \<and> 2 < fftSize (acquired (interp_new 44100 None [1 / 4, 0]) 2 2 5 3)
   \<and> (2::int) \<noteq> 0
   \<and> incMag (acquired (interp_new 44100 None [1 / 4, 0]) 2 2 5 3) ! 2
       = (5 - currMag (acquired (interp_new 44100 None [1 / 4, 0]) 2 2 5 3) ! 2) / 2
   \<and> incPhase (acquired (interp_new 44100 None [1 / 4, 0]) 2 2 5 3) ! 2
       = (3 - currPhase (acquired (interp_new 44100 None [1 / 4, 0]) 2 2 5 3) ! 2) / 2
   \<and> (\<exists>x' outs. step_loop [(0, 0, 2), (0, 0, 7), (0, 0, 2)]
                     (acquired (interp_new 44100 None [1 / 4, 0]) 2 2 5 3) = Some (x', outs)
          \<and> currMag x' ! 2 = 5 \<and> currPhase x' ! 2 = 3)"
proof -
  let ?x = "acquired (interp_new 44100 None [1 / 4, 0]) 2 2 5 3"
  let ?ins = "[(0, 0, 2), (0, 0, 7), (0, 0, 2)] :: frame list"
  have h1: "tables_allocated ?x" by (rule two_frame_leg_allocated)
  have h2: "0 < fftSize ?x" by (simp add: two_frame_engine)
  have h3: "(0::int) \<le> 2" by simp
  have h4: "2 < fftSize ?x" by (simp add: two_frame_engine)
  have h5: "(2::int) \<noteq> 0" by simp
  have h6: "incMag ?x ! nat 2 = (5 - currMag ?x ! nat 2) / real_of_int 2"
    by (simp add: two_frame_leg)
  have h7: "incPhase ?x ! nat 2 = (3 - currPhase ?x ! nat 2) / real_of_int 2"
    by (simp add: two_frame_leg)
  obtain x' outs where r: "step_loop ?ins ?x = Some (x', outs)"
      "currMag x' ! nat 2 = currMag ?x ! nat 2 + real (hits ?x 2 ?ins) * incMag ?x ! nat 2"
      "currPhase x' ! nat 2 = currPhase ?x ! nat 2 + real (hits ?x 2 ?ins) * incPhase ?x ! nat 2"
    using linear_approach [OF h1 h2 h3 h4 h5 h6 h7, of ?ins] by blast
  have "step_loop ?ins ?x = Some (x', outs) \<and> currMag x' ! 2 = 5 \<and> currPhase x' ! 2 = 3"
    using r by (simp add: two_frame_leg_hits two_frame_leg)
  then have "\<exists>x' outs. step_loop ?ins ?x = Some (x', outs)
      \<and> currMag x' ! 2 = 5 \<and> currPhase x' ! 2 = 3"
    by (intro exI)
  then show ?thesis
    using two_frame_leg_acquired h1 h2 h4 by (simp add: two_frame_leg two_frame_engine)
qed

end
